theory Spec2Isabelle
  imports Main "HOL-Library.Word" "HOL-Library.Sublist"
begin

unbundle bit_operations_syntax

section \<open>JavaScript values and exceptions\<close>

text \<open>
  A \<open>Uint8Array\<close>, a Node \<open>Buffer\<close> and the bytes of an \<open>ArrayBuffer\<close> are lists of
  8-bit words; the elements of an \<open>Int16Array\<close> are 16-bit words (\<open>sint\<close> reads the
  signed sample). A thrown exception is a value: its kind and its \<open>message\<close>, which is
  what the HTTP handlers put into the error payload.
\<close>

type_synonym byte = "8 word"
type_synonym int16 = "16 word"
type_synonym bytes = "byte list"

datatype error_kind = PlainError | RangeErr | TypeErr | InvalidCharacterErr | SystemErr

datatype js_error = Thrown error_kind string

fun message :: "js_error \<Rightarrow> string" where
  "message (Thrown k m) = m"

text \<open>Sequencing of two steps where the first may throw: the exception propagates.\<close>

definition bindE :: "js_error + 'a \<Rightarrow> ('a \<Rightarrow> js_error + 'b) \<Rightarrow> js_error + 'b" where
  "bindE m f = (case m of Inl e \<Rightarrow> Inl e | Inr x \<Rightarrow> f x)"

section \<open>wavHelper.js: the audio container codec\<close>

subsection \<open>DataView writes\<close>

text \<open>
  \<open>view.setUint8(o, v)\<close>, \<open>view.setUint16(o, v, true)\<close> and
  \<open>view.setUint32(o, v, true)\<close>: the value is reduced modulo \<open>2 ^ 8\<close>, \<open>2 ^ 16\<close>,
  \<open>2 ^ 32\<close> (\<open>of_nat\<close> into a byte keeps the low 8 bits) and stored low byte first; a
  write that does not fit into the buffer throws a RangeError. Values are the
  non-negative integers the callers pass.
\<close>

definition out_of_bounds :: js_error where
  "out_of_bounds = Thrown RangeErr ''Offset is outside the bounds of the DataView''"

definition setUint8 :: "bytes \<Rightarrow> nat \<Rightarrow> nat \<Rightarrow> js_error + bytes" where
  "setUint8 view byteOffset v =
     (if byteOffset + 1 \<le> length view
      then Inr (view[byteOffset := of_nat v])
      else Inl out_of_bounds)"

definition setUint16 :: "bytes \<Rightarrow> nat \<Rightarrow> nat \<Rightarrow> js_error + bytes" where
  "setUint16 view byteOffset v =
     (if byteOffset + 2 \<le> length view
      then Inr (view[byteOffset := of_nat v,
                     byteOffset + 1 := of_nat (v div 256)])
      else Inl out_of_bounds)"

definition setUint32 :: "bytes \<Rightarrow> nat \<Rightarrow> nat \<Rightarrow> js_error + bytes" where
  "setUint32 view byteOffset v =
     (if byteOffset + 4 \<le> length view
      then Inr (view[byteOffset := of_nat v,
                     byteOffset + 1 := of_nat (v div 256),
                     byteOffset + 2 := of_nat (v div 65536),
                     byteOffset + 3 := of_nat (v div 16777216)])
      else Inl out_of_bounds)"

text \<open>
  \<open>writeString(view, offset, string)\<close>: the loop over \<open>i\<close> writes
  \<open>string.charCodeAt(i)\<close> at \<open>offset + i\<close>.
\<close>

fun writeString :: "bytes \<Rightarrow> nat \<Rightarrow> string \<Rightarrow> js_error + bytes" where
  "writeString view offset [] = Inr view"
| "writeString view offset (c # cs) =
     bindE (setUint8 view offset (of_char c)) (\<lambda>view'. writeString view' (offset + 1) cs)"

subsection \<open>Typed-array view of the sample region\<close>

text \<open>
  \<open>new Int16Array(buffer, byteOffset)\<close> followed by \<open>.set(source)\<close>. The constructor
  throws a RangeError when the offset is beyond the buffer or the rest is not a whole
  number of 2-byte elements; \<open>set\<close> throws one when the source is longer than the view.
  Elements are stored in the platform's byte order, little-endian on every platform
  Node runs on: low byte first.
\<close>

fun store_int16s :: "bytes \<Rightarrow> nat \<Rightarrow> int16 list \<Rightarrow> bytes" where
  "store_int16s buffer off [] = buffer"
| "store_int16s buffer off (s # ss) =
     store_int16s (buffer[off := ucast s, off + 1 := ucast (drop_bit 8 s)]) (off + 2) ss"

definition Int16Array_set :: "bytes \<Rightarrow> nat \<Rightarrow> int16 list \<Rightarrow> js_error + bytes" where
  "Int16Array_set buffer byteOffset source =
     (if length buffer < byteOffset \<or> (length buffer - byteOffset) mod 2 \<noteq> 0
      then Inl (Thrown RangeErr ''byte length of Int16Array should be a multiple of 2'')
      else if (length buffer - byteOffset) div 2 < length source
      then Inl (Thrown RangeErr ''offset is out of bounds'')
      else Inr (store_int16s buffer byteOffset source))"

subsection \<open>pcmToWav\<close>

record blob =
  blob_bytes :: bytes
  blob_type :: string

text \<open>
  The sample rate is a non-negative integer, so \<open>(sampleRate * 1 * 16) / 8\<close> is exact
  and \<open>div\<close> computes it.
\<close>

definition pcmToWav :: "int16 list \<Rightarrow> nat \<Rightarrow> js_error + blob" where
  "pcmToWav pcmData sampleRate =
     (let numChannels = (1::nat);
          bitsPerSample = (16::nat);
          byteRate = (sampleRate * numChannels * bitsPerSample) div 8;
          blockAlign = (numChannels * bitsPerSample) div 8;
          dataSize = length pcmData * (bitsPerSample div 8);
          totalSize = 44 + dataSize;
          buffer = replicate totalSize (0::byte)
      in
        bindE (writeString buffer 0 ''RIFF'') (\<lambda>view.
        bindE (setUint32 view 4 (totalSize - 8)) (\<lambda>view.
        bindE (writeString view 8 ''WAVE'') (\<lambda>view.
        bindE (writeString view 12 ''fmt '') (\<lambda>view.
        bindE (setUint32 view 16 16) (\<lambda>view.
        bindE (setUint16 view 20 1) (\<lambda>view.
        bindE (setUint16 view 22 numChannels) (\<lambda>view.
        bindE (setUint32 view 24 sampleRate) (\<lambda>view.
        bindE (setUint32 view 28 byteRate) (\<lambda>view.
        bindE (setUint16 view 32 blockAlign) (\<lambda>view.
        bindE (setUint16 view 34 bitsPerSample) (\<lambda>view.
        bindE (writeString view 36 ''data'') (\<lambda>view.
        bindE (setUint32 view 40 dataSize) (\<lambda>view.
        bindE (Int16Array_set view 44 pcmData) (\<lambda>buffer'.
        Inr \<lparr>blob_bytes = buffer', blob_type = ''audio/wav''\<rparr>)))))))))))))))"

subsection \<open>Reading a container back\<close>

text \<open>
  The readers the codec's contract is stated with: an unsigned little-endian field of
  2 or 4 bytes at an offset, a 4-character tag, and the sample region reinterpreted as
  little-endian 16-bit samples (low byte plus 256 times high byte, as a 16-bit value).
\<close>

definition getUint16 :: "bytes \<Rightarrow> nat \<Rightarrow> nat" where
  "getUint16 bs off = unat (bs ! off) + 256 * unat (bs ! (off + 1))"

definition getUint32 :: "bytes \<Rightarrow> nat \<Rightarrow> nat" where
  "getUint32 bs off =
     unat (bs ! off) + 256 * unat (bs ! (off + 1)) + 65536 * unat (bs ! (off + 2))
     + 16777216 * unat (bs ! (off + 3))"

definition tag_at :: "bytes \<Rightarrow> nat \<Rightarrow> bytes" where
  "tag_at bs off = take 4 (drop off bs)"

definition ascii :: "string \<Rightarrow> bytes" where
  "ascii s = map of_char s"

fun le_int16_samples :: "bytes \<Rightarrow> int16 list" where
  "le_int16_samples (lo # hi # rest) = of_nat (unat lo + 256 * unat hi) # le_int16_samples rest"
| "le_int16_samples rest = []"

definition sample_region :: "bytes \<Rightarrow> bytes" where
  "sample_region container = drop 44 container"

subsection \<open>The container in closed form\<close>

text \<open>
  The bytes \<open>pcmToWav\<close> produces, written out: the 44 header bytes for \<open>n\<close> samples at
  rate \<open>r\<close>, and the sample bytes. Lemma \<open>pcmToWav_bytes\<close> below proves that the code
  produces exactly these; the definitions serve the proofs and the statements of
  concrete runs.
\<close>

definition sample_bytes :: "int16 list \<Rightarrow> bytes" where
  "sample_bytes ss = concat (map (\<lambda>s. [ucast s, ucast (drop_bit 8 s)]) ss)"

definition le32 :: "nat \<Rightarrow> bytes" where
  "le32 v = [of_nat v, of_nat (v div 256), of_nat (v div 65536), of_nat (v div 16777216)]"

definition le16 :: "nat \<Rightarrow> bytes" where
  "le16 v = [of_nat v, of_nat (v div 256)]"

definition wav_header :: "nat \<Rightarrow> nat \<Rightarrow> bytes" where
  "wav_header n r =
     [82, 73, 70, 70] @ le32 (36 + 2 * n) @ [87, 65, 86, 69]
     @ [102, 109, 116, 32] @ le32 16 @ le16 1 @ le16 1 @ le32 r @ le32 (2 * r)
     @ le16 2 @ le16 16
     @ [100, 97, 116, 97] @ le32 (2 * n)"

section \<open>Decoding a synthesis payload\<close>

subsection \<open>The platform's \<open>atob\<close>\<close>

text \<open>
  \<open>atob\<close> is the platform's base64 decoder (the forgiving-base64 decode of the HTML
  standard): ASCII whitespace is dropped; when the length is then a multiple of 4, one
  or two trailing \<open>=\<close> are dropped; a length of 1 modulo 4, or any character outside
  the base64 alphabet, throws InvalidCharacterError; every character contributes 6
  bits, and the 2 or 4 bits left over at the end are discarded. The result is a binary
  string: one character per byte.
\<close>

definition ascii_whitespace :: "char \<Rightarrow> bool" where
  "ascii_whitespace c =
     ((of_char c :: nat) = 9 \<or> (of_char c :: nat) = 10 \<or> (of_char c :: nat) = 12
      \<or> (of_char c :: nat) = 13 \<or> (of_char c :: nat) = 32)"

definition b64_index :: "char \<Rightarrow> nat option" where
  "b64_index c =
     (let n = (of_char c :: nat)
      in if 65 \<le> n \<and> n \<le> 90 then Some (n - 65)
         else if 97 \<le> n \<and> n \<le> 122 then Some (n - 71)
         else if 48 \<le> n \<and> n \<le> 57 then Some (n + 4)
         else if n = 43 then Some 62
         else if n = 47 then Some 63
         else None)"

definition strip_padding :: "string \<Rightarrow> string" where
  "strip_padding d =
     (if 2 \<le> length d \<and> drop (length d - 2) d = ''==''
      then take (length d - 2) d
      else if 1 \<le> length d \<and> drop (length d - 1) d = ''=''
      then take (length d - 1) d
      else d)"

fun b64_groups :: "nat list \<Rightarrow> nat list" where
  "b64_groups (a # b # c # d # rest) =
     (a * 4 + b div 16) mod 256 # (b * 16 + c div 4) mod 256 # (c * 64 + d) mod 256
       # b64_groups rest"
| "b64_groups [a, b, c] = [(a * 4 + b div 16) mod 256, (b * 16 + c div 4) mod 256]"
| "b64_groups [a, b] = [(a * 4 + b div 16) mod 256]"
| "b64_groups rest = []"

definition atob :: "string \<Rightarrow> js_error + string" where
  "atob encoded =
     (let stripped = filter (\<lambda>c. \<not> ascii_whitespace c) encoded;
          unpadded = (if length stripped mod 4 = 0 then strip_padding stripped else stripped)
      in if length unpadded mod 4 = 1
         then Inl (Thrown InvalidCharacterErr ''The string to be decoded is not correctly encoded.'')
         else (case those (map b64_index unpadded) of
                 None \<Rightarrow> Inl (Thrown InvalidCharacterErr
                                 ''The string to be decoded is not correctly encoded.'')
               | Some sextets \<Rightarrow> Inr (map char_of (b64_groups sextets))))"

subsection \<open>base64ToArrayBuffer and the sample view\<close>

text \<open>
  \<open>base64ToArrayBuffer\<close>: the loop copies \<open>binaryString.charCodeAt(i)\<close> into
  \<open>bytes[i]\<close>. \<open>new Int16Array(arrayBuffer)\<close> throws a RangeError unless the byte
  length is a multiple of 2, and otherwise views each pair of bytes, low byte first,
  as one element.
\<close>

definition base64ToArrayBuffer :: "string \<Rightarrow> js_error + bytes" where
  "base64ToArrayBuffer base64 =
     bindE (atob base64) (\<lambda>binaryString. Inr (map of_char binaryString))"

fun int16_elements :: "bytes \<Rightarrow> int16 list" where
  "int16_elements (lo # hi # rest) = word_cat hi lo # int16_elements rest"
| "int16_elements rest = []"

definition Int16Array_of :: "bytes \<Rightarrow> js_error + int16 list" where
  "Int16Array_of arrayBuffer =
     (if length arrayBuffer mod 2 \<noteq> 0
      then Inl (Thrown RangeErr ''byte length of Int16Array should be a multiple of 2'')
      else Inr (int16_elements arrayBuffer))"

section \<open>The world a run acts on\<close>

text \<open>
  A run reads and writes temporary files and calls four external parties: the
  signal-processing engine (ffmpeg) and the recognition, translation and synthesis
  services. The file system is a set of directories and a map from file paths to
  contents; a file path is a directory and a file name (the names are built from
  uuids, which contain no separator). Every call of an external party is recorded in
  the run's trace, in order, and its successful return as well.
\<close>

type_synonym path = "string \<times> string"

record ffmpeg_command =
  cmd_input :: path
  cmd_filters :: "string list"
  cmd_frequency :: "nat option"
  cmd_channels :: "nat option"
  cmd_format :: "string option"
  cmd_output :: "path option"

datatype collaborator = Recognizer | Translator | Synthesizer

datatype event = RunEngine ffmpeg_command | Call collaborator | Return collaborator

record world =
  dirs :: "string set"
  files :: "path \<rightharpoonup> bytes"
  trace :: "event list"

subsection \<open>Node's \<open>fs\<close> and \<open>path\<close>\<close>

definition ENOENT :: js_error where
  "ENOENT = Thrown SystemErr ''ENOENT: no such file or directory''"

definition EEXIST :: js_error where
  "EEXIST = Thrown SystemErr ''EEXIST: file already exists''"

text \<open>
  A step of a run takes the world and returns its result, a value or a thrown
  exception, with the world it leaves. \<open>bindW\<close> runs a second step on the value of
  the first and stops at an exception, as a statement sequence and \<open>await\<close> do;
  \<open>Pair r\<close> is the step that returns \<open>r\<close> and leaves the world as it is.
\<close>

definition bindW ::
  "(world \<Rightarrow> (js_error + 'a) \<times> world) \<Rightarrow> ('a \<Rightarrow> world \<Rightarrow> (js_error + 'b) \<times> world)
     \<Rightarrow> world \<Rightarrow> (js_error + 'b) \<times> world" where
  "bindW m f w = (case m w of (Inl e, w') \<Rightarrow> (Inl e, w') | (Inr x, w') \<Rightarrow> f x w')"

text \<open>\<open>path.join\<close> normalises a leading \<open>./\<close> away.\<close>

definition normalize_dir :: "string \<Rightarrow> string" where
  "normalize_dir d = (if take 2 d = ''./'' then drop 2 d else d)"

definition path_join :: "string \<Rightarrow> string \<Rightarrow> path" where
  "path_join d name = (normalize_dir d, name)"

text \<open>\<open>fs.existsSync\<close> on a directory and on a file.\<close>

definition existsSync_dir :: "string \<Rightarrow> world \<Rightarrow> bool" where
  "existsSync_dir d w = (normalize_dir d \<in> dirs w)"

definition existsSync :: "path \<Rightarrow> world \<Rightarrow> bool" where
  "existsSync p w = (files w p \<noteq> None)"

definition mkdirSync :: "string \<Rightarrow> world \<Rightarrow> (js_error + unit) \<times> world" where
  "mkdirSync d w =
     (if normalize_dir d \<in> dirs w then (Inl EEXIST, w)
      else (Inr (), w\<lparr>dirs := insert (normalize_dir d) (dirs w)\<rparr>))"

definition writeFileSync :: "path \<Rightarrow> bytes \<Rightarrow> world \<Rightarrow> (js_error + unit) \<times> world" where
  "writeFileSync p content w =
     (if fst p \<in> dirs w then (Inr (), w\<lparr>files := (files w)(p \<mapsto> content)\<rparr>)
      else (Inl ENOENT, w))"

definition readFileSync :: "path \<Rightarrow> world \<Rightarrow> (js_error + bytes) \<times> world" where
  "readFileSync p w =
     (case files w p of None \<Rightarrow> (Inl ENOENT, w) | Some content \<Rightarrow> (Inr content, w))"

definition unlinkSync :: "path \<Rightarrow> world \<Rightarrow> (js_error + unit) \<times> world" where
  "unlinkSync p w =
     (if files w p = None then (Inl ENOENT, w)
      else (Inr (), w\<lparr>files := (files w)(p := None)\<rparr>))"

subsection \<open>fluent-ffmpeg\<close>

text \<open>
  The builder calls collect the command; \<open>save\<close> sets the output path and runs the
  engine, which then emits exactly one of the events \<open>end\<close> and \<open>error\<close>. The engine
  is a parameter: from the command and the content of the input file it either ends,
  having written the output file, or fails with a diagnostic, having possibly left a
  partial output file behind.
\<close>

datatype engine_result = EngineEnd bytes | EngineError js_error "bytes option"

type_synonym engine = "ffmpeg_command \<Rightarrow> bytes \<Rightarrow> engine_result"

definition ffmpeg :: "path \<Rightarrow> ffmpeg_command" where
  "ffmpeg inputPath =
     \<lparr>cmd_input = inputPath, cmd_filters = [], cmd_frequency = None, cmd_channels = None,
      cmd_format = None, cmd_output = None\<rparr>"

definition audioFilters :: "string list \<Rightarrow> ffmpeg_command \<Rightarrow> ffmpeg_command" where
  "audioFilters fs cmd = cmd\<lparr>cmd_filters := cmd_filters cmd @ fs\<rparr>"

definition audioFrequency :: "nat \<Rightarrow> ffmpeg_command \<Rightarrow> ffmpeg_command" where
  "audioFrequency f cmd = cmd\<lparr>cmd_frequency := Some f\<rparr>"

definition audioChannels :: "nat \<Rightarrow> ffmpeg_command \<Rightarrow> ffmpeg_command" where
  "audioChannels n cmd = cmd\<lparr>cmd_channels := Some n\<rparr>"

definition format :: "string \<Rightarrow> ffmpeg_command \<Rightarrow> ffmpeg_command" where
  "format f cmd = cmd\<lparr>cmd_format := Some f\<rparr>"

text \<open>
  A promise settles as resolved or rejected; an exception thrown inside an event
  handler is caught by nobody and leaves the promise unsettled. An exception thrown
  in an \<open>async\<close> function rejects its promise (\<open>settle\<close>), and \<open>await\<close> continues on a
  resolved promise only (\<open>bindO\<close>).
\<close>

datatype 'a outcome = Resolved 'a | Rejected js_error | Uncaught js_error

definition settle :: "(world \<Rightarrow> (js_error + 'a) \<times> world) \<Rightarrow> world \<Rightarrow> 'a outcome \<times> world" where
  "settle m w = (case m w of (Inl e, w') \<Rightarrow> (Rejected e, w') | (Inr x, w') \<Rightarrow> (Resolved x, w'))"

definition bindO ::
  "(world \<Rightarrow> 'a outcome \<times> world) \<Rightarrow> ('a \<Rightarrow> world \<Rightarrow> 'b outcome \<times> world)
     \<Rightarrow> world \<Rightarrow> 'b outcome \<times> world" where
  "bindO m f w =
     (case m w of
        (Resolved x, w') \<Rightarrow> f x w'
      | (Rejected e, w') \<Rightarrow> (Rejected e, w')
      | (Uncaught e, w') \<Rightarrow> (Uncaught e, w'))"

definition save ::
  "engine \<Rightarrow> path \<Rightarrow> (world \<Rightarrow> 'a outcome \<times> world) \<Rightarrow> (js_error \<Rightarrow> world \<Rightarrow> 'a outcome \<times> world)
     \<Rightarrow> ffmpeg_command \<Rightarrow> world \<Rightarrow> 'a outcome \<times> world" where
  "save eng outputPath on_end on_error cmd0 w =
     (let cmd = cmd0\<lparr>cmd_output := Some outputPath\<rparr>;
          w1 = w\<lparr>trace := trace w @ [RunEngine cmd]\<rparr>
      in case files w1 (cmd_input cmd) of
           None \<Rightarrow> on_error ENOENT w1
         | Some content \<Rightarrow>
             (case eng cmd content of
                EngineEnd out \<Rightarrow> on_end (w1\<lparr>files := (files w1)(outputPath \<mapsto> out)\<rparr>)
              | EngineError err None \<Rightarrow> on_error err w1
              | EngineError err (Some partial) \<Rightarrow>
                  on_error err (w1\<lparr>files := (files w1)(outputPath \<mapsto> partial)\<rparr>)))"

section \<open>audioPreprocess.js\<close>

text \<open>
  \<open>preprocessAudioDSP\<close>; \<open>uuid\<close> is the value of \<open>id\<close>, which \<open>uuidv4()\<close> returns in this
  call. The \<open>try\<close> block covers the synchronous part only: the \<open>end\<close> handler runs
  later, so what it throws is not caught.
\<close>

definition preprocessAudioDSP :: "engine \<Rightarrow> string \<Rightarrow> bytes \<Rightarrow> world \<Rightarrow> bytes outcome \<times> world" where
  "preprocessAudioDSP eng uuid inputBuffer w =
     (let tempDir = ''./temp'';
          inputPath = path_join tempDir (''raw_'' @ uuid @ ''.wav'');
          outputPath = path_join tempDir (''clean_'' @ uuid @ ''.wav'')
      in case bindW (if \<not> existsSync_dir tempDir w then mkdirSync tempDir else Pair (Inr ()))
                (\<lambda>_. writeFileSync inputPath inputBuffer) w of
           (Inl error, w1) \<Rightarrow> (Rejected error, w1)
         | (Inr _, w1) \<Rightarrow>
             save eng outputPath
               (\<lambda>w2.
                  case bindW (readFileSync outputPath) (\<lambda>cleanedBuffer.
                       bindW (unlinkSync inputPath) (\<lambda>_.
                       bindW (unlinkSync outputPath) (\<lambda>_.
                       Pair (Inr cleanedBuffer)))) w2 of
                    (Inl e, w') \<Rightarrow> (Uncaught e, w')
                  | (Inr cleanedBuffer, w') \<Rightarrow> (Resolved cleanedBuffer, w'))
               (\<lambda>err w2. (Rejected err, w2))
               (format ''wav''
                 (audioChannels 1
                   (audioFrequency 16000
                     (audioFilters
                        [''highpass=f=80'', ''lowpass=f=8000'', ''afftdn'',
                         ''silenceremove=1:0:-50dB'', ''loudnorm'']
                        (ffmpeg inputPath)))))
               w1)"

section \<open>The external services\<close>

text \<open>
  What the recognition, translation and synthesis clients answer, as parameters of a
  run. Google's recognizer answers with a list of results, each a list of alternatives
  with a transcript (absent when the field is missing); the constant parts of its
  configuration (language code, phrase hints) are left out of its arguments. OpenAI's
  transcription answers with a text, possibly missing. The translator answers with
  the list of translated texts. The synthesis request answers with the payload found
  at \<open>candidates[0].content.parts[0].inlineData.data\<close>, absent when any link of that
  chain is.
\<close>

record services =
  ffmpeg_engine :: engine
  speech_recognize :: "bytes \<Rightarrow> string \<Rightarrow> nat \<Rightarrow> js_error + string option list list"
  whisper_transcribe :: "bytes \<Rightarrow> js_error + string option"
  translate_text :: "string \<Rightarrow> js_error + string list"
  gemini_tts :: "string \<Rightarrow> js_error + string option"

text \<open>Awaiting a service call: the call is recorded, and its return when it succeeds.\<close>

definition call :: "collaborator \<Rightarrow> js_error + 'a \<Rightarrow> world \<Rightarrow> (js_error + 'a) \<times> world" where
  "call c answer w =
     (case answer of
        Inl e \<Rightarrow> (Inl e, w\<lparr>trace := trace w @ [Call c]\<rparr>)
      | Inr x \<Rightarrow> (Inr x, w\<lparr>trace := trace w @ [Call c, Return c]\<rparr>))"

text \<open>\<open>xs[0].field\<close>: reading a field of \<open>undefined\<close> throws a TypeError.\<close>

definition first_of :: "'a list \<Rightarrow> js_error + 'a" where
  "first_of xs =
     (case xs of
        [] \<Rightarrow> Inl (Thrown TypeErr ''Cannot read properties of undefined'')
      | x # _ \<Rightarrow> Inr x)"

text \<open>
  JavaScript's \<open>!s\<close>, for a string \<open>s\<close> that may be undefined, holds when \<open>s\<close> is
  undefined or empty: the two failing branches of the \<open>case\<close> distinctions on the
  transcription's text, the request's text and the synthesis payload below. In
  \<open>translateAndSynthesize\<close> and \<open>englishTextToSpeech\<close>,
  \<open>Buffer.from(await wavBlob.arrayBuffer())\<close> is the blob's bytes.
\<close>

section \<open>index1.js: the server built on Google's recognizer\<close>

record pipeline_result =
  assameseText :: string
  englishText :: string
  wavBuffer :: bytes

definition translateAndSynthesize ::
  "services \<Rightarrow> string \<Rightarrow> world \<Rightarrow> (js_error + pipeline_result) \<times> world" where
  "translateAndSynthesize svc assamese =
     bindW (call Translator (translate_text svc assamese)) (\<lambda>texts.
     bindW (Pair (first_of texts)) (\<lambda>english.
     bindW (call Synthesizer (gemini_tts svc english)) (\<lambda>audioData.
     case audioData of
       None \<Rightarrow> Pair (Inl (Thrown PlainError ''Gemini did not return audio.''))
     | Some base64 \<Rightarrow>
         if base64 = [] then Pair (Inl (Thrown PlainError ''Gemini did not return audio.''))
         else
           bindW (Pair (base64ToArrayBuffer base64)) (\<lambda>pcmData.
           bindW (Pair (Int16Array_of pcmData)) (\<lambda>pcm16.
           bindW (Pair (pcmToWav pcm16 24000)) (\<lambda>wavBlob.
           Pair (Inr \<lparr>assameseText = assamese, englishText = english,
                      wavBuffer = blob_bytes wavBlob\<rparr>)))))))"

text \<open>
  \<open>results.map(r => r.alternatives[0].transcript).join("\n")\<close>: a result without
  alternatives throws a TypeError; \<open>join\<close> writes a missing transcript as the empty
  string.
\<close>

fun first_transcripts :: "string option list list \<Rightarrow> js_error + string option list" where
  "first_transcripts [] = Inr []"
| "first_transcripts (r # rs) =
     bindE (first_of r) (\<lambda>t. bindE (first_transcripts rs) (\<lambda>ts. Inr (t # ts)))"

fun join_lines :: "string option list \<Rightarrow> string" where
  "join_lines [] = []"
| "join_lines [t] = (case t of None \<Rightarrow> [] | Some s \<Rightarrow> s)"
| "join_lines (t # ts) = (case t of None \<Rightarrow> [] | Some s \<Rightarrow> s) @ [CHR 0x0A] @ join_lines ts"

definition runTranslationPipeline ::
  "services \<Rightarrow> bytes \<Rightarrow> string \<Rightarrow> nat \<Rightarrow> world \<Rightarrow> (js_error + pipeline_result) \<times> world" where
  "runTranslationPipeline svc audioBuffer encoding sampleRateHertz =
     bindW (call Recognizer (speech_recognize svc audioBuffer encoding sampleRateHertz))
       (\<lambda>results.
     bindW (Pair (first_transcripts results)) (\<lambda>transcripts.
       let assamese = join_lines transcripts
       in if assamese = [] then Pair (Inl (Thrown PlainError ''Could not understand audio.''))
          else translateAndSynthesize svc assamese))"

subsection \<open>Express responses\<close>

text \<open>
  A response under construction: status (200 unless set), headers, body.
  \<open>res.json\<close> sets the JSON body and media type. \<open>res.send\<close> of a Buffer sets the body
  and, as Express does for every body it sends, the Content-Length header to the
  body's byte length; it leaves a Content-Type that is already set.
\<close>

datatype header_value = HString string | HNumber nat

datatype json_value = JString string | JBool bool

datatype body = NoBody | JsonBody "(string \<times> json_value) list" | BufferBody bytes

record response =
  res_status :: nat
  res_headers :: "string \<rightharpoonup> header_value"
  res_body :: body

definition res :: response where
  "res = \<lparr>res_status = 200, res_headers = Map.empty, res_body = NoBody\<rparr>"

definition status :: "nat \<Rightarrow> response \<Rightarrow> response" where
  "status code r = r\<lparr>res_status := code\<rparr>"

definition setHeader :: "string \<Rightarrow> header_value \<Rightarrow> response \<Rightarrow> response" where
  "setHeader name v r = r\<lparr>res_headers := (res_headers r)(name \<mapsto> v)\<rparr>"

definition json :: "(string \<times> json_value) list \<Rightarrow> response \<Rightarrow> response" where
  "json obj r =
     r\<lparr>res_headers := (res_headers r)(''Content-Type'' \<mapsto> HString ''application/json; charset=utf-8''),
       res_body := JsonBody obj\<rparr>"

definition send :: "bytes \<Rightarrow> response \<Rightarrow> response" where
  "send buffer r =
     r\<lparr>res_headers :=
         (if res_headers r ''Content-Type'' = None
          then (res_headers r)(''Content-Type'' \<mapsto> HString ''application/octet-stream'')
          else res_headers r)
         (''Content-Length'' \<mapsto> HNumber (length buffer)),
       res_body := BufferBody buffer\<rparr>"

record request =
  req_file :: "bytes option"
  req_text :: "string option"

subsection \<open>The endpoints\<close>

definition api_translate :: "services \<Rightarrow> request \<Rightarrow> world \<Rightarrow> response \<times> world" where
  "api_translate svc req w =
     (case req_file req of
        None \<Rightarrow> (json [(''error'', JString ''No audio file provided.'')] (status 400 res), w)
      | Some buffer \<Rightarrow>
          (case runTranslationPipeline svc buffer ''WEBM_OPUS'' 48000 w of
             (Inr result, w') \<Rightarrow>
               (send (wavBuffer result)
                 (setHeader ''Content-Length'' (HNumber (length (wavBuffer result)))
                   (setHeader ''Content-Type'' (HString ''audio/wav'') res)), w')
           | (Inl error, w') \<Rightarrow>
               (json [(''error'', JString (message error))] (status 500 res), w')))"

definition api_text_translate :: "services \<Rightarrow> request \<Rightarrow> world \<Rightarrow> response \<times> world" where
  "api_text_translate svc req w =
     (case req_text req of
        None \<Rightarrow> (json [(''error'', JString ''No text provided.'')] (status 400 res), w)
      | Some assamese \<Rightarrow>
          if assamese = []
          then (json [(''error'', JString ''No text provided.'')] (status 400 res), w)
          else
            (case translateAndSynthesize svc assamese w of
               (Inr result, w') \<Rightarrow>
                 (send (wavBuffer result)
                   (setHeader ''Content-Type'' (HString ''audio/wav'') res), w')
             | (Inl error, w') \<Rightarrow>
                 (json [(''error'', JString (message error))] (status 500 res), w')))"

section \<open>The server built on Whisper and the conditioning stage\<close>

text \<open>
  \<open>speechToAssameseText\<close> hands \<open>fs.createReadStream(audioPath)\<close> to the transcription
  client: the stream opens the file only when the client reads it. So the client is
  called in every case; it is given the content of the file, and when the file is
  missing the stream fails under the client's request, which rejects with the client's
  connection error.
\<close>

definition speechToAssameseText ::
  "services \<Rightarrow> path \<Rightarrow> world \<Rightarrow> (js_error + string) \<times> world" where
  "speechToAssameseText svc audioPath =
     bindW (\<lambda>w. call Recognizer
                   (case files w audioPath of
                      None \<Rightarrow> Inl (Thrown PlainError ''Connection error.'')
                    | Some audio \<Rightarrow> whisper_transcribe svc audio) w) (\<lambda>text.
     case text of
       None \<Rightarrow> Pair (Inl (Thrown PlainError ''Whisper failed to transcribe audio''))
     | Some t \<Rightarrow>
         if t = [] then Pair (Inl (Thrown PlainError ''Whisper failed to transcribe audio''))
         else Pair (Inr t))"

definition translateAssameseToEnglish ::
  "services \<Rightarrow> string \<Rightarrow> world \<Rightarrow> (js_error + string) \<times> world" where
  "translateAssameseToEnglish svc assamese =
     bindW (call Translator (translate_text svc assamese)) (\<lambda>texts.
     Pair (first_of texts))"

definition englishTextToSpeech ::
  "services \<Rightarrow> string \<Rightarrow> world \<Rightarrow> (js_error + bytes) \<times> world" where
  "englishTextToSpeech svc english =
     bindW (call Synthesizer (gemini_tts svc english)) (\<lambda>audioBase64.
     case audioBase64 of
       None \<Rightarrow> Pair (Inl (Thrown PlainError ''Gemini TTS did not return audio''))
     | Some base64 \<Rightarrow>
         if base64 = [] then Pair (Inl (Thrown PlainError ''Gemini TTS did not return audio''))
         else
           bindW (Pair (base64ToArrayBuffer base64)) (\<lambda>pcmData.
           bindW (Pair (Int16Array_of pcmData)) (\<lambda>pcm16.
           bindW (Pair (pcmToWav pcm16 24000)) (\<lambda>wavBlob.
           Pair (Inr (blob_bytes wavBlob))))))"

text \<open>
  The handler of \<open>/api/translate-audio\<close>: \<open>tempId\<close> and \<open>dspId\<close> are the uuids drawn by
  the handler and by the conditioning stage. The \<open>try\<close> block up to and including
  its cleanup is \<open>translate_audio_try\<close>; the \<open>catch\<close> block removes each file after testing that it
  exists. While the promise of the conditioning stage stays unsettled, no response is
  sent.
\<close>

definition translate_audio_try ::
  "services \<Rightarrow> string \<Rightarrow> string \<Rightarrow> bytes \<Rightarrow> world \<Rightarrow> bytes outcome \<times> world" where
  "translate_audio_try svc tempId dspId buffer =
     (let rawPath = (''temp'', ''raw_'' @ tempId @ ''.wav'');
          cleanedPath = (''temp'', ''cleaned_'' @ tempId @ ''.wav'')
      in bindO (settle (writeFileSync rawPath buffer)) (\<lambda>_.
         bindO (preprocessAudioDSP (ffmpeg_engine svc) dspId buffer) (\<lambda>cleanedBuffer.
         bindO (settle (writeFileSync cleanedPath cleanedBuffer)) (\<lambda>_.
         bindO (settle (speechToAssameseText svc cleanedPath)) (\<lambda>assamese.
         bindO (settle (translateAssameseToEnglish svc assamese)) (\<lambda>english.
         bindO (settle (englishTextToSpeech svc english)) (\<lambda>finalAudioBuffer.
         bindO (settle (unlinkSync rawPath)) (\<lambda>_.
         bindO (settle (unlinkSync cleanedPath)) (\<lambda>_.
         Pair (Resolved finalAudioBuffer))))))))))"


text \<open>\<open>if (fs.existsSync(p)) fs.unlinkSync(p)\<close>, the release of the \<open>catch\<close> block.\<close>

definition unlink_if_exists :: "path \<Rightarrow> world \<Rightarrow> (js_error + unit) \<times> world" where
  "unlink_if_exists p w = (if existsSync p w then unlinkSync p w else (Inr (), w))"

definition api_translate_audio ::
  "services \<Rightarrow> string \<Rightarrow> string \<Rightarrow> request \<Rightarrow> world \<Rightarrow> response option \<times> world" where
  "api_translate_audio svc tempId dspId req w =
     (case req_file req of
        None \<Rightarrow>
          (Some (json [(''error'', JString ''Audio file not provided'')] (status 400 res)), w)
      | Some buffer \<Rightarrow>
          (let rawPath = (''temp'', ''raw_'' @ tempId @ ''.wav'');
               cleanedPath = (''temp'', ''cleaned_'' @ tempId @ ''.wav'')
           in case translate_audio_try svc tempId dspId buffer w of
                (Resolved finalAudioBuffer, w') \<Rightarrow>
                  (Some (send finalAudioBuffer
                     (setHeader ''Content-Length'' (HNumber (length finalAudioBuffer))
                       (setHeader ''Content-Type'' (HString ''audio/wav'') res))), w')
              | (Rejected error, w') \<Rightarrow>
                  (case bindW (unlink_if_exists rawPath)
                          (\<lambda>_. unlink_if_exists cleanedPath) w' of
                     (Inl e, w'') \<Rightarrow> (None, w'')
                   | (Inr _, w'') \<Rightarrow>
                       (Some (json [(''success'', JBool False),
                                    (''error'', JString (message error))]
                               (status 500 res)), w''))
              | (Uncaught e, w') \<Rightarrow> (None, w')))"

section \<open>Stub services\<close>

text \<open>
  The stubs of the specification's end-to-end scenario, for concrete runs: the engine
  returns its input, recognition and translation answer \<open>hello\<close>, and synthesis answers
  the base64 text of the two samples 100 and -100. \<open>w0\<close> is a world with the
  temporary directory and nothing else.
\<close>

definition scenario :: services where
  "scenario =
     \<lparr>ffmpeg_engine = (\<lambda>cmd content. EngineEnd content),
      speech_recognize = (\<lambda>audio encoding rate. Inr [[Some ''hello'']]),
      whisper_transcribe = (\<lambda>audio. Inr (Some ''hello'')),
      translate_text = (\<lambda>text. Inr [''hello'']),
      gemini_tts = (\<lambda>text. Inr (Some ''ZACc/w==''))\<rparr>"

definition w0 :: world where
  "w0 = \<lparr>dirs = {''temp''}, files = Map.empty, trace = []\<rparr>"

section \<open>Reference values used in the statements\<close>

text \<open>
  The order in which a run may call the services, and the one command the conditioning
  stage builds for a given uuid, written out. Lemma \<open>preprocessAudioDSP_cases\<close> proves
  that the stage runs the engine with exactly this command.
\<close>

definition stage_order :: "event list" where
  "stage_order =
     [Call Recognizer, Return Recognizer, Call Translator, Return Translator,
      Call Synthesizer, Return Synthesizer]"

definition conditioning_command :: "string \<Rightarrow> ffmpeg_command" where
  "conditioning_command uuid =
     \<lparr>cmd_input = (''temp'', ''raw_'' @ uuid @ ''.wav''),
      cmd_filters = [''highpass=f=80'', ''lowpass=f=8000'', ''afftdn'',
                     ''silenceremove=1:0:-50dB'', ''loudnorm''],
      cmd_frequency = Some 16000,
      cmd_channels = Some 1,
      cmd_format = Some ''wav'',
      cmd_output = Some (''temp'', ''clean_'' @ uuid @ ''.wav'')\<rparr>"

text \<open>
  The tail that \<open>translateAndSynthesize\<close> and \<open>englishTextToSpeech\<close> share, as one
  function of the payload: the check, the decoding and the re-encoding at 24000 Hz,
  with the message of the error as a parameter. Lemmas \<open>translateAndSynthesize_tail\<close>
  and \<open>englishTextToSpeech_tail\<close> prove that both functions compute it.
\<close>

definition payload_to_wav :: "string \<Rightarrow> string option \<Rightarrow> js_error + bytes" where
  "payload_to_wav no_audio audioData =
     (case audioData of
        None \<Rightarrow> Inl (Thrown PlainError no_audio)
      | Some base64 \<Rightarrow>
          if base64 = [] then Inl (Thrown PlainError no_audio)
          else bindE (base64ToArrayBuffer base64) (\<lambda>pcmData.
               bindE (Int16Array_of pcmData) (\<lambda>pcm16.
               bindE (pcmToWav pcm16 24000) (\<lambda>wavBlob.
               Inr (blob_bytes wavBlob)))))"

text \<open>
  The base64 text of a byte sequence (RFC 4648): every three bytes give four characters
  of the alphabet \<open>A-Z\<close>, \<open>a-z\<close>, \<open>0-9\<close>, \<open>+\<close>, \<open>/\<close>, one for each six bits; one or two
  bytes left over give two or three characters, filled up to four with \<open>=\<close>. This is
  what a synthesizer that sends the bytes \<open>pcm\<close> puts in its answer. Lemma
  \<open>base64ToArrayBuffer_base64_text\<close> proves that \<open>base64ToArrayBuffer\<close> reads it back.
\<close>

definition b64_char :: "nat \<Rightarrow> char" where
  "b64_char n =
     (if n < 26 then char_of (n + 65)
      else if n < 52 then char_of (n + 71)
      else if n < 62 then char_of (n - 4)
      else if n = 62 then CHR ''+''
      else CHR ''/'')"

fun sextets_of :: "bytes \<Rightarrow> nat list" where
  "sextets_of (a # b # c # rest) =
     [unat a div 4, unat a mod 4 * 16 + unat b div 16, unat b mod 16 * 4 + unat c div 64,
      unat c mod 64] @ sextets_of rest"
| "sextets_of [a, b] = [unat a div 4, unat a mod 4 * 16 + unat b div 16, unat b mod 16 * 4]"
| "sextets_of [a] = [unat a div 4, unat a mod 4 * 16]"
| "sextets_of [] = []"

fun padding_of :: "bytes \<Rightarrow> string" where
  "padding_of (a # b # c # rest) = padding_of rest"
| "padding_of [a, b] = ''=''"
| "padding_of [a] = ''==''"
| "padding_of [] = []"

definition base64_text :: "bytes \<Rightarrow> string" where
  "base64_text bs = map b64_char (sextets_of bs) @ padding_of bs"

text \<open>
  The \<open>try\<close> block of \<open>/api/translate-audio\<close> with its two \<open>fs.unlinkSync\<close> statements
  left out: the steps up to the synthesis. Lemma \<open>try_split\<close> proves that
  \<open>translate_audio_try\<close> is these steps followed by the two deletions.
\<close>

definition try_without_cleanup ::
  "services \<Rightarrow> string \<Rightarrow> string \<Rightarrow> bytes \<Rightarrow> world \<Rightarrow> bytes outcome \<times> world" where
  "try_without_cleanup svc tempId dspId buffer =
     (let rawPath = (''temp'', ''raw_'' @ tempId @ ''.wav'');
          cleanedPath = (''temp'', ''cleaned_'' @ tempId @ ''.wav'')
      in bindO (settle (writeFileSync rawPath buffer)) (\<lambda>_.
         bindO (preprocessAudioDSP (ffmpeg_engine svc) dspId buffer) (\<lambda>cleanedBuffer.
         bindO (settle (writeFileSync cleanedPath cleanedBuffer)) (\<lambda>_.
         bindO (settle (speechToAssameseText svc cleanedPath)) (\<lambda>assamese.
         bindO (settle (translateAssameseToEnglish svc assamese)) (\<lambda>english.
         bindO (settle (englishTextToSpeech svc english)) (\<lambda>finalAudioBuffer.
         Pair (Resolved finalAudioBuffer))))))))"

text \<open>
  \<open>emits m seg\<close>: from every world, the step \<open>m\<close> appends to the trace an initial part
  of \<open>seg\<close>, and all of \<open>seg\<close> when it resolves.
\<close>

definition emits :: "(world \<Rightarrow> 'a outcome \<times> world) \<Rightarrow> event list \<Rightarrow> bool" where
  "emits m seg =
     (\<forall>w. \<exists>t. trace (snd (m w)) = trace w @ t \<and> prefix t seg
        \<and> (\<forall>x. fst (m w) = Resolved x \<longrightarrow> t = seg))"

text \<open>
  The two shapes of an endpoint's response: the container as audio/wav with its exact
  length, and the error payload \<open>{error: msg}\<close> with a status outside 200..299.
\<close>

definition wav_response :: "response \<Rightarrow> bytes \<Rightarrow> bool" where
  "wav_response r container =
     (res_status r = 200
      \<and> res_headers r ''Content-Type'' = Some (HString ''audio/wav'')
      \<and> res_headers r ''Content-Length'' = Some (HNumber (length container))
      \<and> res_body r = BufferBody container)"

definition error_response :: "response \<Rightarrow> string \<Rightarrow> bool" where
  "error_response r msg =
     ((res_status r < 200 \<or> 300 \<le> res_status r)
      \<and> res_body r = JsonBody [(''error'', JString msg)])"

section \<open>Properties of the codec\<close>

lemma bindE_Inr [simp]: "bindE (Inr x) f = f x"
  by (simp add: bindE_def)

lemma bindE_Inl [simp]: "bindE (Inl e) f = Inl e"
  by (simp add: bindE_def)

lemma length_store_int16s [simp]: "length (store_int16s buffer off ss) = length buffer"
  by (induction ss arbitrary: buffer off) simp_all

lemma store_int16s_append:
  "off = length pre \<Longrightarrow> length mid = 2 * length ss \<Longrightarrow>
   store_int16s (pre @ mid @ post) off ss
     = pre @ concat (map (\<lambda>s. [ucast s, ucast (drop_bit 8 s)]) ss) @ post"
proof (induction ss arbitrary: pre mid off)
  case Nil
  then show ?case by simp
next
  case (Cons s ss)
  from Cons.prems obtain a b mid' where mid: "mid = a # b # mid'"
    by (cases mid; cases "tl mid") auto
  have len: "length mid' = 2 * length ss"
    using Cons.prems mid by simp
  have upd: "(pre @ mid @ post)[off := ucast s, off + 1 := ucast (drop_bit 8 s)]
      = (pre @ [ucast s, ucast (drop_bit 8 s)]) @ mid' @ post"
    using Cons.prems mid by (simp add: list_update_append)
  have "store_int16s ((pre @ [ucast s, ucast (drop_bit 8 s)]) @ mid' @ post) (off + 2) ss
      = (pre @ [ucast s, ucast (drop_bit 8 s)])
        @ concat (map (\<lambda>s. [ucast s, ucast (drop_bit 8 s)]) ss) @ post"
    by (rule Cons.IH) (use Cons.prems len in simp_all)
  with upd show ?case by simp
qed

lemma le_int16_samples_store:
  "le_int16_samples (concat (map (\<lambda>s. [ucast s, ucast (drop_bit 8 s)]) ss)) = ss"
proof (induction ss)
  case Nil
  then show ?case by simp
next
  case (Cons s ss)
  have "(of_nat (unat (ucast s :: byte) + 256 * unat (ucast (drop_bit 8 s) :: byte)) :: int16)
      = word_cat (ucast (drop_bit 8 s) :: byte) (ucast s :: byte)"
    by (simp add: word_cat_eq push_bit_eq_mult)
  also have "\<dots> = s"
    by (rule bit_word_eqI) (auto simp add: bit_simps)
  finally show ?case using Cons.IH by simp
qed

lemma replicate_44: "replicate 44 (0::byte) = [0,0,0,0,0,0,0,0,0,0,0,0,0,0,0,0,0,0,0,0,0,0,0,0,0,0,0,0,0,0,0,0,0,0,0,0,0,0,0,0,0,0,0,0]"
  by code_simp

lemma header_writes:
  "bindE (writeString (replicate 44 0 @ rest) 0 ''RIFF'') (\<lambda>view.
        bindE (setUint32 view 4 ts) (\<lambda>view.
        bindE (writeString view 8 ''WAVE'') (\<lambda>view.
        bindE (writeString view 12 ''fmt '') (\<lambda>view.
        bindE (setUint32 view 16 cs) (\<lambda>view.
        bindE (setUint16 view 20 fmt) (\<lambda>view.
        bindE (setUint16 view 22 nc) (\<lambda>view.
        bindE (setUint32 view 24 r) (\<lambda>view.
        bindE (setUint32 view 28 br) (\<lambda>view.
        bindE (setUint16 view 32 ba) (\<lambda>view.
        bindE (setUint16 view 34 bps) (\<lambda>view.
        bindE (writeString view 36 ''data'') (\<lambda>view.
        bindE (setUint32 view 40 ds) k))))))))))))
   = k (([82, 73, 70, 70] @ le32 ts @ [87, 65, 86, 69]
     @ [102, 109, 116, 32] @ le32 cs @ le16 fmt @ le16 nc @ le32 r @ le32 br
     @ le16 ba @ le16 bps
     @ [100, 97, 116, 97] @ le32 ds) @ rest)"
  unfolding replicate_44 le32_def le16_def
  by (simp add: setUint8_def setUint16_def setUint32_def list_update_append)

lemma length_wav_header [simp]: "length (wav_header n r) = 44"
  by (simp add: wav_header_def le32_def le16_def)

lemma length_sample_bytes [simp]: "length (sample_bytes ss) = 2 * length ss"
  by (induction ss) (simp_all add: sample_bytes_def)

lemma pcmToWav_bytes:
  "pcmToWav pcmData sampleRate =
     Inr \<lparr>blob_bytes = wav_header (length pcmData) sampleRate @ sample_bytes pcmData,
          blob_type = ''audio/wav''\<rparr>"
proof -
  let ?n = "length pcmData"
  let ?h = "wav_header ?n sampleRate"
  have store: "Int16Array_set (?h @ replicate (2 * ?n) 0) 44 pcmData
      = Inr (?h @ sample_bytes pcmData)"
    using store_int16s_append [of 44 ?h "replicate (2 * ?n) 0" pcmData "[]"]
    by (simp add: Int16Array_set_def sample_bytes_def)
  have rep: "replicate (44 + length pcmData * (16 div 8)) (0::byte)
      = replicate 44 0 @ replicate (2 * ?n) 0"
    by (simp add: replicate_add mult.commute)
  have h: "[82, 73, 70, 70] @ le32 (44 + length pcmData * (16 div 8) - 8) @ [87, 65, 86, 69]
     @ [102, 109, 116, 32] @ le32 16 @ le16 1 @ le16 1 @ le32 sampleRate
     @ le32 (sampleRate * 1 * 16 div 8)
     @ le16 (1 * 16 div 8) @ le16 16
     @ [100, 97, 116, 97] @ le32 (length pcmData * (16 div 8)) = ?h"
    by (simp add: wav_header_def mult.commute)
  have "pcmToWav pcmData sampleRate =
      bindE (Int16Array_set (?h @ replicate (2 * ?n) 0) 44 pcmData)
        (\<lambda>buffer'. Inr \<lparr>blob_bytes = buffer', blob_type = ''audio/wav''\<rparr>)"
    unfolding pcmToWav_def Let_def rep header_writes h ..
  with store show ?thesis by simp
qed


lemma le32_value:
  "(v::nat) mod 256 + 256 * (v div 256 mod 256) + 65536 * (v div 65536 mod 256)
      + 16777216 * (v div 16777216 mod 256) = v mod 4294967296"
proof -
  have a: "v mod 4294967296 = 256 * (v div 256 mod 16777216) + v mod 256"
    using mod_mult2_eq [of v 256 16777216] by simp
  have b: "v div 256 mod 16777216 = 256 * (v div 256 div 256 mod 65536) + v div 256 mod 256"
    using mod_mult2_eq [of "v div 256" 256 65536] by simp
  have c: "v div 65536 mod 65536 = 256 * (v div 65536 div 256 mod 256) + v div 65536 mod 256"
    using mod_mult2_eq [of "v div 65536" 256 256] by simp
  have d: "v div 256 div 256 = v div 65536" "v div 65536 div 256 = v div 16777216"
    by (simp_all add: div_mult2_eq [symmetric])
  show ?thesis
    unfolding a b c d by simp
qed

lemma le16_value: "(v::nat) mod 256 + 256 * (v div 256 mod 256) = v mod 65536"
  using mod_mult2_eq [of v 256 256] by simp

lemma getUint32_le32: "getUint32 (pre @ le32 v @ post) (length pre) = v mod 4294967296"
  using le32_value [of v]
  by (simp add: getUint32_def le32_def nth_append unat_of_nat)

lemma getUint16_le16: "getUint16 (pre @ le16 v @ post) (length pre) = v mod 65536"
  using le16_value [of v]
  by (simp add: getUint16_def le16_def nth_append unat_of_nat)


lemma wav_header_tags:
  "tag_at (wav_header n r @ rest) 0 = ascii ''RIFF''"
  "tag_at (wav_header n r @ rest) 8 = ascii ''WAVE''"
  "tag_at (wav_header n r @ rest) 12 = ascii ''fmt ''"
  "tag_at (wav_header n r @ rest) 36 = ascii ''data''"
  by (simp_all add: tag_at_def ascii_def wav_header_def le32_def le16_def)

lemma wav_header_fields16:
  "getUint16 (wav_header n r @ rest) 20 = 1"
  "getUint16 (wav_header n r @ rest) 22 = 1"
  "getUint16 (wav_header n r @ rest) 32 = 2"
  "getUint16 (wav_header n r @ rest) 34 = 16"
  by (simp_all add: getUint16_def wav_header_def le32_def le16_def)


lemma wav_header_fields32:
  "getUint32 (wav_header n r @ rest) 4 = (36 + 2 * n) mod 4294967296"
  "getUint32 (wav_header n r @ rest) 16 = 16"
  "getUint32 (wav_header n r @ rest) 24 = r mod 4294967296"
  "getUint32 (wav_header n r @ rest) 28 = (2 * r) mod 4294967296"
  "getUint32 (wav_header n r @ rest) 40 = (2 * n) mod 4294967296"
proof -
  let ?b = "wav_header n r @ rest"
  have nths:
    "?b ! 4 = of_nat (36 + 2 * n)" "?b ! 5 = of_nat ((36 + 2 * n) div 256)"
    "?b ! 6 = of_nat ((36 + 2 * n) div 65536)" "?b ! 7 = of_nat ((36 + 2 * n) div 16777216)"
    "?b ! 16 = 16" "?b ! 17 = 0" "?b ! 18 = 0" "?b ! 19 = 0"
    "?b ! 24 = of_nat r" "?b ! 25 = of_nat (r div 256)"
    "?b ! 26 = of_nat (r div 65536)" "?b ! 27 = of_nat (r div 16777216)"
    "?b ! 28 = of_nat (2 * r)" "?b ! 29 = of_nat (2 * r div 256)"
    "?b ! 30 = of_nat (2 * r div 65536)" "?b ! 31 = of_nat (2 * r div 16777216)"
    "?b ! 40 = of_nat (2 * n)" "?b ! 41 = of_nat (2 * n div 256)"
    "?b ! 42 = of_nat (2 * n div 65536)" "?b ! 43 = of_nat (2 * n div 16777216)"
    by (simp_all add: wav_header_def le32_def le16_def)
  have rd: "\<And>v. unat (of_nat v :: byte) + 256 * unat (of_nat (v div 256) :: byte)
      + 65536 * unat (of_nat (v div 65536) :: byte)
      + 16777216 * unat (of_nat (v div 16777216) :: byte) = v mod 4294967296"
    by (simp only: unat_of_nat le32_value [symmetric]) simp
  show "getUint32 ?b 4 = (36 + 2 * n) mod 4294967296"
    unfolding getUint32_def by (simp only: nths rd numeral_plus_numeral semiring_norm add_numeral_left)
  show "getUint32 ?b 16 = 16"
    unfolding getUint32_def by (simp add: nths)
  show "getUint32 ?b 24 = r mod 4294967296"
    unfolding getUint32_def using rd [of r] by (simp only: nths numeral_plus_numeral semiring_norm)
  show "getUint32 ?b 28 = (2 * r) mod 4294967296"
    unfolding getUint32_def using rd [of "2 * r"] by (simp only: nths numeral_plus_numeral semiring_norm)
  show "getUint32 ?b 40 = (2 * n) mod 4294967296"
    unfolding getUint32_def using rd [of "2 * n"] by (simp only: nths numeral_plus_numeral semiring_norm)
qed

lemma sample_region_wav [simp]:
  "sample_region (wav_header n r @ rest) = rest"
  by (simp add: sample_region_def)

text \<open>
  Claim C2 (round trip). For every sequence \<open>S\<close> of 16-bit samples, of any length, and
  every sample rate \<open>R\<close>, \<open>pcmToWav S R\<close> returns a container, and dropping its first
  44 bytes and reading the rest as little-endian 16-bit samples gives back exactly \<open>S\<close>.
\<close>

theorem pcmToWav_round_trip:
  "\<exists>b. pcmToWav S R = Inr b \<and> le_int16_samples (sample_region (blob_bytes b)) = S"
  using le_int16_samples_store [of S]
  by (simp add: pcmToWav_bytes sample_bytes_def)

theorem pcmToWav_round_trip_witness:
  "\<exists>b. pcmToWav [100, - 100] 24000 = Inr b
     \<and> le_int16_samples (sample_region (blob_bytes b)) = [100, - 100]"
  by (rule pcmToWav_round_trip)

text \<open>
  Claim C3 (header layout), as amended. The four size and rate fields are 32 bits wide,
  so they hold the claimed numbers only while those fit: for every \<open>S\<close> of length \<open>N\<close>
  and every \<open>R\<close> with \<open>36 + 2 * N < 2 ^ 32\<close> and \<open>2 * R < 2 ^ 32\<close>, the container has
  \<open>44 + 2 * N\<close> bytes, the tags RIFF, WAVE, fmt and data at offsets 0, 8, 12 and 36,
  total size minus 8 (\<open>36 + 2 * N\<close>) at offset 4, 16 at offset 16, format code 1 at
  offset 20, channel count 1 at offset 22, \<open>R\<close> at offset 24, byte rate \<open>R * 2\<close> at
  offset 28, block alignment 2 at offset 32, 16 bits per sample at offset 34 and the
  data byte length \<open>2 * N\<close> at offset 40. Lemma \<open>wav_header_fields32\<close> gives the fields
  for all inputs: each holds its number modulo \<open>2 ^ 32\<close>.
\<close>

theorem pcmToWav_header_layout:
  assumes "36 + 2 * length S < 4294967296" and "2 * R < 4294967296"
  shows "\<exists>b. pcmToWav S R = Inr b
      \<and> length (blob_bytes b) = 44 + 2 * length S
      \<and> tag_at (blob_bytes b) 0 = ascii ''RIFF''
      \<and> getUint32 (blob_bytes b) 4 = length (blob_bytes b) - 8
      \<and> getUint32 (blob_bytes b) 4 = 36 + 2 * length S
      \<and> tag_at (blob_bytes b) 8 = ascii ''WAVE''
      \<and> tag_at (blob_bytes b) 12 = ascii ''fmt ''
      \<and> getUint32 (blob_bytes b) 16 = 16
      \<and> getUint16 (blob_bytes b) 20 = 1
      \<and> getUint16 (blob_bytes b) 22 = 1
      \<and> getUint32 (blob_bytes b) 24 = R
      \<and> getUint32 (blob_bytes b) 28 = R * 2
      \<and> getUint16 (blob_bytes b) 32 = 2
      \<and> getUint16 (blob_bytes b) 34 = 16
      \<and> tag_at (blob_bytes b) 36 = ascii ''data''
      \<and> getUint32 (blob_bytes b) 40 = 2 * length S"
  using assms
  by (simp add: pcmToWav_bytes wav_header_tags wav_header_fields32 wav_header_fields16)

text \<open>The instance named in the claim: no samples at 24000 Hz.\<close>

theorem pcmToWav_header_layout_witness:
  "36 + 2 * length ([] :: int16 list) < 4294967296 \<and> 2 * 24000 < (4294967296 :: nat) \<and>
   (\<exists>b. pcmToWav [] 24000 = Inr b
      \<and> length (blob_bytes b) = 44
      \<and> getUint32 (blob_bytes b) 4 = 36
      \<and> getUint32 (blob_bytes b) 24 = 24000
      \<and> getUint32 (blob_bytes b) 28 = 48000
      \<and> getUint32 (blob_bytes b) 40 = 0)"
  using pcmToWav_header_layout [of "[]" 24000] by auto

text \<open>
  The claim as stated, for every rate, fails at \<open>R = 2 ^ 31\<close>: the rate field holds
  \<open>R\<close>, and the byte-rate field holds 0, not \<open>R * 2\<close>.
\<close>

theorem pcmToWav_byte_rate_counterexample:
  "(case pcmToWav [] 2147483648 of
      Inl e \<Rightarrow> False
    | Inr b \<Rightarrow> getUint32 (blob_bytes b) 24 = 2147483648
             \<and> getUint32 (blob_bytes b) 28 = 0
             \<and> getUint32 (blob_bytes b) 28 \<noteq> 2147483648 * 2)"
  by (simp add: pcmToWav_bytes wav_header_fields32)

section \<open>Properties of the decoding path and of the runs\<close>


lemma length_int16_elements: "length (int16_elements bs) = length bs div 2"
  by (induction bs rule: int16_elements.induct) simp_all

lemma word_cat_bytes:
  "(ucast (word_cat hi lo :: int16) :: byte) = lo"
  "(ucast (drop_bit 8 (word_cat hi lo :: int16)) :: byte) = hi"
  for hi lo :: byte
  by (rule bit_word_eqI; auto simp add: bit_simps)+

lemma sample_bytes_int16_elements:
  "even (length bs) \<Longrightarrow> sample_bytes (int16_elements bs) = bs"
  by (induction bs rule: int16_elements.induct)
    (simp_all add: sample_bytes_def word_cat_bytes)

lemma Int16Array_of_odd:
  "odd (length bs) \<Longrightarrow>
   Int16Array_of bs = Inl (Thrown RangeErr ''byte length of Int16Array should be a multiple of 2'')"
  by (simp add: Int16Array_of_def odd_iff_mod_2_eq_one)

lemma Int16Array_of_even:
  "even (length bs) \<Longrightarrow> Int16Array_of bs = Inr (int16_elements bs)"
  by (simp add: Int16Array_of_def)

lemma payload_to_wav_missing:
  "payload_to_wav msg None = Inl (Thrown PlainError msg)"
  "payload_to_wav msg (Some []) = Inl (Thrown PlainError msg)"
  by (simp_all add: payload_to_wav_def)

lemma payload_to_wav_even:
  assumes "p \<noteq> []" and "base64ToArrayBuffer p = Inr pcm" and "even (length pcm)"
  shows "payload_to_wav msg (Some p) = Inr (wav_header (length pcm div 2) 24000 @ pcm)"
  using assms
  by (simp add: payload_to_wav_def Int16Array_of_even pcmToWav_bytes length_int16_elements
      sample_bytes_int16_elements)

lemma payload_to_wav_odd:
  assumes "p \<noteq> []" and "base64ToArrayBuffer p = Inr pcm" and "odd (length pcm)"
  shows "payload_to_wav msg (Some p)
    = Inl (Thrown RangeErr ''byte length of Int16Array should be a multiple of 2'')"
  using assms by (simp add: payload_to_wav_def Int16Array_of_odd)

lemma payload_to_wav_Inr:
  "payload_to_wav msg a = Inr wav \<Longrightarrow> \<exists>p. a = Some p \<and> p \<noteq> []"
  by (cases a) (auto simp add: payload_to_wav_def split: if_splits)


lemma call_Inr [simp]:
  "call c (Inr x) w = (Inr x, w\<lparr>trace := trace w @ [Call c, Return c]\<rparr>)"
  by (simp add: call_def)

lemma call_Inl [simp]:
  "call c (Inl e) w = (Inl e, w\<lparr>trace := trace w @ [Call c]\<rparr>)"
  by (simp add: call_def)

lemma bindW_Pair [simp]:
  "bindW (Pair (Inr x)) f w = f x w"
  "bindW (Pair (Inl e)) f w = (Inl e, w)"
  by (simp_all add: bindW_def)

lemma bindW_call [simp]:
  "bindW (call c (Inr x)) f w = f x (w\<lparr>trace := trace w @ [Call c, Return c]\<rparr>)"
  "bindW (call c (Inl e)) f w = (Inl e, w\<lparr>trace := trace w @ [Call c]\<rparr>)"
  by (simp_all add: bindW_def)

lemma pcmToWav_total: "\<exists>b. pcmToWav pcmData sampleRate = Inr b"
  by (simp add: pcmToWav_bytes)

lemma translateAndSynthesize_tail:
  "translateAndSynthesize svc assamese =
     bindW (call Translator (translate_text svc assamese)) (\<lambda>texts.
     bindW (Pair (first_of texts)) (\<lambda>english.
     bindW (call Synthesizer (gemini_tts svc english)) (\<lambda>audioData.
     bindW (Pair (payload_to_wav ''Gemini did not return audio.'' audioData)) (\<lambda>wav.
     Pair (Inr \<lparr>assameseText = assamese, englishText = english, wavBuffer = wav\<rparr>)))))"
  unfolding translateAndSynthesize_def
  by (rule ext)
    (auto simp add: payload_to_wav_def bindW_def bindE_def pcmToWav_bytes call_def
      split: option.splits sum.splits prod.splits)

lemma englishTextToSpeech_tail:
  "englishTextToSpeech svc english =
     bindW (call Synthesizer (gemini_tts svc english)) (\<lambda>audioBase64.
     Pair (payload_to_wav ''Gemini TTS did not return audio'' audioBase64))"
  unfolding englishTextToSpeech_def
  by (rule ext)
    (auto simp add: payload_to_wav_def bindW_def bindE_def pcmToWav_bytes call_def
      split: option.splits sum.splits prod.splits)

lemma englishTextToSpeech_result:
  "fst (englishTextToSpeech svc english w) =
     bindE (gemini_tts svc english) (payload_to_wav ''Gemini TTS did not return audio'')"
  by (cases "gemini_tts svc english")
    (auto simp add: englishTextToSpeech_tail bindW_def split: sum.splits prod.splits)

lemma translateAndSynthesize_result:
  "translate_text svc assamese = Inr (english # others) \<Longrightarrow>
   map_sum id wavBuffer (fst (translateAndSynthesize svc assamese w)) =
     bindE (gemini_tts svc english) (payload_to_wav ''Gemini did not return audio.'')"
  by (cases "gemini_tts svc english";
      cases "payload_to_wav ''Gemini did not return audio.'' (projr (gemini_tts svc english))")
    (simp_all add: translateAndSynthesize_tail first_of_def)

lemma wav_of_payload:
  assumes "p \<noteq> []" and "base64ToArrayBuffer p = Inr pcm" and "even (length pcm)"
  shows "\<exists>wav. payload_to_wav msg (Some p) = Inr wav
      \<and> pcmToWav (int16_elements pcm) 24000 = Inr \<lparr>blob_bytes = wav, blob_type = ''audio/wav''\<rparr>
      \<and> length wav = 44 + length pcm
      \<and> getUint32 wav 24 = 24000
      \<and> sample_region wav = pcm"
  using assms
  by (simp add: payload_to_wav_even pcmToWav_bytes length_int16_elements
      sample_bytes_int16_elements wav_header_fields32)

subsection \<open>The decoder reads base64\<close>

lemma b64_index_char: "n < 64 \<Longrightarrow> b64_index (b64_char n) = Some n"
  by (auto simp add: b64_index_def b64_char_def Let_def)

lemma b64_char_not_ws: "n < 64 \<Longrightarrow> \<not> ascii_whitespace (b64_char n)"
  by (auto simp add: ascii_whitespace_def b64_char_def)

lemma b64_char_not_pad: "n < 64 \<Longrightarrow> b64_char n \<noteq> CHR ''=''"
proof
  assume n: "n < 64" and "b64_char n = CHR ''=''"
  then have "(of_char (b64_char n) :: nat) = of_char CHR ''=''" by simp
  with n show False by (auto simp add: b64_char_def split: if_splits)
qed

lemma sextets_lt: "s \<in> set (sextets_of bs) \<Longrightarrow> s < 64"
proof (induction bs arbitrary: s rule: sextets_of.induct)
  case (1 a b c rest)
  have "unat a < 256" "unat b < 256" "unat c < 256"
    using unsigned_less [of a] unsigned_less [of b] unsigned_less [of c] by simp_all
  with 1 show ?case by auto
next
  case (2 a b)
  have "unat a < 256" "unat b < 256"
    using unsigned_less [of a] unsigned_less [of b] by simp_all
  with 2 show ?case by auto
next
  case (3 a)
  have "unat a < 256" using unsigned_less [of a] by simp
  with 3 show ?case by auto
next
  case 4
  then show ?case by simp
qed

lemma those_map_index:
  "(\<And>s. s \<in> set xs \<Longrightarrow> s < 64) \<Longrightarrow> those (map b64_index (map b64_char xs)) = Some xs"
  by (induction xs) (simp_all add: b64_index_char)

lemma filter_base64_text:
  "filter (\<lambda>c. \<not> ascii_whitespace c) (map b64_char (sextets_of bs)) = map b64_char (sextets_of bs)"
  by (simp add: filter_id_conv b64_char_not_ws sextets_lt)

lemma padding_cases: "padding_of bs = [] \<or> padding_of bs = ''='' \<or> padding_of bs = ''==''"
  by (induction bs rule: padding_of.induct) simp_all

lemma filter_padding:
  "filter (\<lambda>c. \<not> ascii_whitespace c) (padding_of bs) = padding_of bs"
  using padding_cases [of bs] by (auto simp add: ascii_whitespace_def)

lemma length_base64_text: "(length (sextets_of bs) + length (padding_of bs)) mod 4 = 0"
  by (induction bs rule: sextets_of.induct) simp_all

lemma length_sextets: "length (sextets_of bs) mod 4 \<noteq> 1"
  by (induction bs rule: sextets_of.induct) simp_all

lemma pad_not_in: "CHR ''='' \<notin> set (map b64_char (sextets_of bs))"
proof
  assume "CHR ''='' \<in> set (map b64_char (sextets_of bs))"
  then obtain s where "s \<in> set (sextets_of bs)" and "b64_char s = CHR ''=''" by auto
  then show False using b64_char_not_pad [of s] sextets_lt [of s bs] by simp
qed

lemma strip_padding_pad:
  assumes "CHR ''='' \<notin> set xs" and "p = [] \<or> p = ''='' \<or> p = ''==''"
  shows "strip_padding (xs @ p) = xs"
proof -
  have n2: "drop (length xs - 2) xs \<noteq> ''==''"
  proof
    assume "drop (length xs - 2) xs = ''==''"
    then have "CHR ''='' \<in> set (drop (length xs - 2) xs)" by simp
    with assms(1) show False using set_drop_subset by fastforce
  qed
  have n1: "drop (length xs - 1) xs \<noteq> ''=''"
  proof
    assume "drop (length xs - 1) xs = ''=''"
    then have "CHR ''='' \<in> set (drop (length xs - 1) xs)" by simp
    with assms(1) show False using set_drop_subset by fastforce
  qed
  from assms(2) consider "p = []" | "p = ''=''" | "p = ''==''" by blast
  then show ?thesis
  proof cases
    case 1
    with n1 n2 show ?thesis by (simp add: strip_padding_def)
  next
    case 2
    have "drop (length xs - 1) xs @ ''='' \<noteq> ''==''"
      using n1 by auto
    with 2 show ?thesis by (auto simp add: strip_padding_def Suc_diff_le)
  next
    case 3
    then show ?thesis by (simp add: strip_padding_def)
  qed
qed

lemma sextet_arith:
  fixes a b c :: nat
  assumes "a < 256" and "b < 256" and "c < 256"
  shows "(a div 4 * 4 + (a mod 4 * 16 + b div 16) div 16) mod 256 = a"
    and "((a mod 4 * 16 + b div 16) * 16 + (b mod 16 * 4 + c div 64) div 4) mod 256 = b"
    and "((b mod 16 * 4 + c div 64) * 64 + c mod 64) mod 256 = c"
    and "((a mod 4 * 16 + b div 16) * 16 + (b mod 16 * 4) div 4) mod 256 = b"
    and "(a div 4 * 4 + (a mod 4 * 16) div 16) mod 256 = a"
proof -
  from assms have b16: "b div 16 < 16" and c64: "c div 64 < 4" by simp_all
  from b16 have "(a mod 4 * 16 + b div 16) div 16 = a mod 4" by simp
  with assms(1) show "(a div 4 * 4 + (a mod 4 * 16 + b div 16) div 16) mod 256 = a" by simp
  from c64 have e: "(b mod 16 * 4 + c div 64) div 4 = b mod 16" by simp
  have f: "(a mod 4 * 16 + b div 16) * 16 + b mod 16 = a mod 4 * 256 + b"
    by (simp add: algebra_simps)
  from e f assms(2)
  show "((a mod 4 * 16 + b div 16) * 16 + (b mod 16 * 4 + c div 64) div 4) mod 256 = b"
    by simp
  have "(b mod 16 * 4 + c div 64) * 64 + c mod 64 = b mod 16 * 256 + c"
    by (simp add: algebra_simps)
  with assms(3) show "((b mod 16 * 4 + c div 64) * 64 + c mod 64) mod 256 = c" by simp
  from f assms(2) show "((a mod 4 * 16 + b div 16) * 16 + (b mod 16 * 4) div 4) mod 256 = b"
    by simp
  from assms(1) show "(a div 4 * 4 + (a mod 4 * 16) div 16) mod 256 = a" by simp
qed

lemma unat_byte_less: "unat (a :: byte) < 256"
  using unsigned_less [of a] by simp

lemma groups_sextets: "b64_groups (sextets_of bs) = map unat bs"
proof (induction bs rule: sextets_of.induct)
  case (1 a b c rest)
  note ar = sextet_arith [OF unat_byte_less [of a] unat_byte_less [of b] unat_byte_less [of c]]
  show ?case
    by (simp only: sextets_of.simps append.simps b64_groups.simps list.map ar 1)
next
  case (2 a b)
  note ar = sextet_arith [OF unat_byte_less [of a] unat_byte_less [of b] unat_byte_less [of b]]
  show ?case
    by (simp only: sextets_of.simps append.simps b64_groups.simps list.map ar)
next
  case (3 a)
  note ar = sextet_arith [OF unat_byte_less [of a] unat_byte_less [of a] unat_byte_less [of a]]
  show ?case
    by (simp only: sextets_of.simps append.simps b64_groups.simps list.map ar)
next
  case 4
  show ?case by simp
qed

lemma byte_of_char: "of_char (char_of (unat a)) = (a :: byte)"
proof -
  have "(of_char (char_of (unat a)) :: byte) = of_nat (of_char (char_of (unat a)))"
    by (simp only: of_nat_of_char)
  also have "\<dots> = of_nat (unat a)" by (simp add: unat_byte_less)
  also have "\<dots> = a" by simp
  finally show ?thesis .
qed

lemma bytes_of_chars: "map of_char (map char_of (map unat bs)) = (bs :: bytes)"
  by (induction bs) (simp_all add: byte_of_char)

lemma atob_base64_text: "atob (base64_text bs) = Inr (map char_of (map unat bs))"
proof -
  let ?xs = "map b64_char (sextets_of bs)"
  have f: "filter (\<lambda>c. \<not> ascii_whitespace c) (base64_text bs) = ?xs @ padding_of bs"
    by (simp add: base64_text_def filter_base64_text filter_padding)
  have l: "length (?xs @ padding_of bs) mod 4 = 0"
    using length_base64_text [of bs] by simp
  have s: "strip_padding (?xs @ padding_of bs) = ?xs"
    by (rule strip_padding_pad [OF pad_not_in padding_cases])
  have n: "length ?xs mod 4 \<noteq> 1"
    using length_sextets [of bs] by simp
  have t: "those (map b64_index ?xs) = Some (sextets_of bs)"
    by (rule those_map_index) (rule sextets_lt)
  show ?thesis
    unfolding atob_def Let_def f using l s n t by (simp add: groups_sextets)
qed

lemma base64ToArrayBuffer_base64_text: "base64ToArrayBuffer (base64_text bs) = Inr bs"
  by (simp only: base64ToArrayBuffer_def atob_base64_text bindE_def sum.case bytes_of_chars)


lemma base64_text_Nil_iff: "base64_text bs = [] \<longleftrightarrow> bs = []"
  by (cases bs rule: sextets_of.cases) (simp_all add: base64_text_def)

lemma in_strip_padding:
  assumes "c \<in> set d" and "c \<noteq> CHR ''=''"
  shows "c \<in> set (strip_padding d)"
proof -
  have split: "set d = set (take k d) \<union> set (drop k d)" for k
    by (metis append_take_drop_id set_append)
  have "c \<in> set (take (length d - 2) d)" if "drop (length d - 2) d = ''==''"
    using assms split [of "length d - 2"] that by auto
  moreover have "c \<in> set (take (length d - 1) d)" if "drop (length d - 1) d = ''=''"
    using assms split [of "length d - 1"] that by auto
  ultimately show ?thesis
    using assms(1) by (simp add: strip_padding_def)
qed

lemma those_map_None: "x \<in> set xs \<Longrightarrow> f x = None \<Longrightarrow> those (map f xs) = None"
  by (induction xs) (auto split: option.splits)

lemma atob_invalid:
  assumes "c \<in> set encoded" and "\<not> ascii_whitespace c" and "c \<noteq> CHR ''=''"
    and "b64_index c = None"
  shows "atob encoded
    = Inl (Thrown InvalidCharacterErr ''The string to be decoded is not correctly encoded.'')"
proof -
  let ?stripped = "filter (\<lambda>c. \<not> ascii_whitespace c) encoded"
  let ?unpadded = "if length ?stripped mod 4 = 0 then strip_padding ?stripped else ?stripped"
  from assms have "c \<in> set ?stripped" by simp
  with assms(3) have "c \<in> set ?unpadded" by (simp add: in_strip_padding)
  then have "those (map b64_index ?unpadded) = None" using assms(4) by (rule those_map_None)
  then show ?thesis unfolding atob_def Let_def by simp
qed

lemma base64ToArrayBuffer_invalid:
  assumes "c \<in> set base64" and "\<not> ascii_whitespace c" and "c \<noteq> CHR ''=''"
    and "b64_index c = None"
  shows "base64ToArrayBuffer base64
    = Inl (Thrown InvalidCharacterErr ''The string to be decoded is not correctly encoded.'')"
  by (simp add: base64ToArrayBuffer_def atob_invalid [OF assms] bindE_def)

lemma base64ToArrayBuffer_whitespace:
  "base64ToArrayBuffer (filter (\<lambda>c. \<not> ascii_whitespace c) base64) = base64ToArrayBuffer base64"
  by (simp add: base64ToArrayBuffer_def atob_def)

lemma base64ToArrayBuffer_unpadded:
  "base64ToArrayBuffer (map b64_char (sextets_of bs)) = Inr bs"
proof -
  let ?xs = "map b64_char (sextets_of bs)"
  have f: "filter (\<lambda>c. \<not> ascii_whitespace c) ?xs = ?xs"
    by (rule filter_base64_text)
  have s: "strip_padding ?xs = ?xs"
    using strip_padding_pad [OF pad_not_in, of "[]" bs] by simp
  have n: "length ?xs mod 4 \<noteq> 1"
    using length_sextets [of bs] by simp
  have t: "those (map b64_index ?xs) = Some (sextets_of bs)"
    by (rule those_map_index) (rule sextets_lt)
  have "atob ?xs = Inr (map char_of (map unat bs))"
    unfolding atob_def Let_def f using s n t by (simp add: groups_sextets)
  then show ?thesis
    by (simp only: base64ToArrayBuffer_def bindE_def sum.case bytes_of_chars)
qed

lemma payload_to_wav_text:
  assumes "pcm \<noteq> []" and "even (length pcm)"
  shows "payload_to_wav msg (Some (base64_text pcm))
    = Inr (wav_header (length pcm div 2) 24000 @ pcm)"
proof -
  from assms(1) have "base64_text pcm \<noteq> []" by (simp add: base64_text_Nil_iff)
  then show ?thesis
    using base64ToArrayBuffer_base64_text assms(2) by (rule payload_to_wav_even)
qed

lemma payload_to_wav_text_odd:
  assumes "odd (length pcm)"
  shows "payload_to_wav msg (Some (base64_text pcm))
    = Inl (Thrown RangeErr ''byte length of Int16Array should be a multiple of 2'')"
proof -
  from assms have "pcm \<noteq> []" by auto
  then have "base64_text pcm \<noteq> []" by (simp add: base64_text_Nil_iff)
  then show ?thesis
    using base64ToArrayBuffer_base64_text assms by (rule payload_to_wav_odd)
qed

lemma payload_to_wav_invalid:
  assumes "c \<in> set p" and "\<not> ascii_whitespace c" and "c \<noteq> CHR ''=''"
    and "b64_index c = None"
  shows "payload_to_wav msg (Some p)
    = Inl (Thrown InvalidCharacterErr ''The string to be decoded is not correctly encoded.'')"
proof -
  from assms(1) have "p \<noteq> []" by auto
  then show ?thesis
    by (simp add: payload_to_wav_def base64ToArrayBuffer_invalid [OF assms])
qed

lemma payload_to_wav_cases:
  assumes "p \<noteq> []"
  shows "payload_to_wav msg (Some p) =
    (case base64ToArrayBuffer p of
       Inl e \<Rightarrow> Inl e
     | Inr pcm \<Rightarrow>
         if even (length pcm) then Inr (wav_header (length pcm div 2) 24000 @ pcm)
         else Inl (Thrown RangeErr ''byte length of Int16Array should be a multiple of 2''))"
proof (cases "base64ToArrayBuffer p")
  case (Inl e)
  with assms show ?thesis by (simp add: payload_to_wav_def)
next
  case (Inr pcm)
  with assms show ?thesis
    by (cases "even (length pcm)") (simp_all add: payload_to_wav_even payload_to_wav_odd)
qed

lemma englishTextToSpeech_payload:
  "gemini_tts svc english = Inr a \<Longrightarrow>
   fst (englishTextToSpeech svc english w)
     = payload_to_wav ''Gemini TTS did not return audio'' a"
  by (simp add: englishTextToSpeech_result)

lemma translateAndSynthesize_payload:
  "translate_text svc assamese = Inr (english # others) \<Longrightarrow> gemini_tts svc english = Inr a \<Longrightarrow>
   fst (translateAndSynthesize svc assamese w)
     = map_sum (\<lambda>e. e)
         (\<lambda>wav. \<lparr>assameseText = assamese, englishText = english, wavBuffer = wav\<rparr>)
         (payload_to_wav ''Gemini did not return audio.'' a)"
  by (cases "payload_to_wav ''Gemini did not return audio.'' a")
    (simp_all add: translateAndSynthesize_tail first_of_def)

text \<open>
  Claim C7 (synthesis completes only on a payload), as amended. \<open>base64ToArrayBuffer\<close>
  reads the base64 text of any bytes back as these bytes, and refuses a text with a
  character that is neither of the alphabet, nor whitespace, nor \<open>=\<close>. In
  \<open>englishTextToSpeech\<close>, and in \<open>translateAndSynthesize\<close> once the translator has
  answered: when the synthesizer's answer holds no payload, missing or empty, the run
  fails with the synthesis stage's error and returns no container; when the payload is
  the base64 text of a non-empty even number of bytes \<open>pcm\<close>, these bytes are viewed as
  16-bit samples and the run returns the container that \<open>pcmToWav\<close> builds from them
  at 24000 Hz, the 44 header bytes followed by \<open>pcm\<close>; for any non-empty payload the
  result is the decoder's error when the payload does not decode, a RangeError when it
  decodes to an odd number of bytes, and the container of the decoded bytes otherwise;
  and a run that returns a container had a non-empty payload.
\<close>

theorem synthesis_payload:
  "base64ToArrayBuffer (base64_text pcm) = Inr pcm
   \<and> (c \<in> set p \<and> \<not> ascii_whitespace c \<and> c \<noteq> CHR ''='' \<and> b64_index c = None \<longrightarrow>
        base64ToArrayBuffer p
          = Inl (Thrown InvalidCharacterErr
                   ''The string to be decoded is not correctly encoded.''))
   \<and> (gemini_tts svc english = Inr None \<or> gemini_tts svc english = Inr (Some []) \<longrightarrow>
        fst (englishTextToSpeech svc english w)
          = Inl (Thrown PlainError ''Gemini TTS did not return audio'')
        \<and> (translate_text svc assamese = Inr (english # others) \<longrightarrow>
             fst (translateAndSynthesize svc assamese w)
               = Inl (Thrown PlainError ''Gemini did not return audio.'')))
   \<and> (gemini_tts svc english = Inr (Some (base64_text pcm)) \<and> pcm \<noteq> []
        \<and> even (length pcm) \<longrightarrow>
        Int16Array_of pcm = Inr (int16_elements pcm)
        \<and> pcmToWav (int16_elements pcm) 24000
            = Inr \<lparr>blob_bytes = wav_header (length pcm div 2) 24000 @ pcm,
                   blob_type = ''audio/wav''\<rparr>
        \<and> fst (englishTextToSpeech svc english w)
            = Inr (wav_header (length pcm div 2) 24000 @ pcm)
        \<and> (translate_text svc assamese = Inr (english # others) \<longrightarrow>
             fst (translateAndSynthesize svc assamese w)
               = Inr \<lparr>assameseText = assamese, englishText = english,
                      wavBuffer = wav_header (length pcm div 2) 24000 @ pcm\<rparr>)
        \<and> length (wav_header (length pcm div 2) 24000 @ pcm) = 44 + length pcm
        \<and> getUint32 (wav_header (length pcm div 2) 24000 @ pcm) 24 = 24000
        \<and> sample_region (wav_header (length pcm div 2) 24000 @ pcm) = pcm)
   \<and> (gemini_tts svc english = Inr (Some p) \<and> p \<noteq> [] \<longrightarrow>
        fst (englishTextToSpeech svc english w)
          = (case base64ToArrayBuffer p of
               Inl e \<Rightarrow> Inl e
             | Inr decoded \<Rightarrow>
                 if even (length decoded)
                 then Inr (wav_header (length decoded div 2) 24000 @ decoded)
                 else Inl (Thrown RangeErr
                             ''byte length of Int16Array should be a multiple of 2''))
        \<and> (translate_text svc assamese = Inr (english # others) \<longrightarrow>
             fst (translateAndSynthesize svc assamese w)
               = (case base64ToArrayBuffer p of
                    Inl e \<Rightarrow> Inl e
                  | Inr decoded \<Rightarrow>
                      if even (length decoded)
                      then Inr \<lparr>assameseText = assamese, englishText = english,
                                wavBuffer = wav_header (length decoded div 2) 24000 @ decoded\<rparr>
                      else Inl (Thrown RangeErr
                                  ''byte length of Int16Array should be a multiple of 2''))))
   \<and> ((\<exists>wav. fst (englishTextToSpeech svc english w) = Inr wav) \<longrightarrow>
        (\<exists>payload. gemini_tts svc english = Inr (Some payload) \<and> payload \<noteq> []))
   \<and> (translate_text svc assamese = Inr (english # others)
        \<and> (\<exists>r. fst (translateAndSynthesize svc assamese w) = Inr r) \<longrightarrow>
        (\<exists>payload. gemini_tts svc english = Inr (Some payload) \<and> payload \<noteq> []))"
proof (intro conjI impI)
  show "base64ToArrayBuffer (base64_text pcm) = Inr pcm"
    by (rule base64ToArrayBuffer_base64_text)
next
  assume "c \<in> set p \<and> \<not> ascii_whitespace c \<and> c \<noteq> CHR ''='' \<and> b64_index c = None"
  then show "base64ToArrayBuffer p
      = Inl (Thrown InvalidCharacterErr ''The string to be decoded is not correctly encoded.'')"
    using base64ToArrayBuffer_invalid [of c p] by simp
next
  assume "gemini_tts svc english = Inr None \<or> gemini_tts svc english = Inr (Some [])"
  then show "fst (englishTextToSpeech svc english w)
      = Inl (Thrown PlainError ''Gemini TTS did not return audio'')"
    by (auto simp add: englishTextToSpeech_payload payload_to_wav_missing)
next
  assume "gemini_tts svc english = Inr None \<or> gemini_tts svc english = Inr (Some [])"
    and "translate_text svc assamese = Inr (english # others)"
  then show "fst (translateAndSynthesize svc assamese w)
      = Inl (Thrown PlainError ''Gemini did not return audio.'')"
    by (auto simp add: translateAndSynthesize_payload payload_to_wav_missing)
next
  assume a: "gemini_tts svc english = Inr (Some (base64_text pcm)) \<and> pcm \<noteq> []
      \<and> even (length pcm)"
  then show "Int16Array_of pcm = Inr (int16_elements pcm)"
    by (simp add: Int16Array_of_even)
  from a show "pcmToWav (int16_elements pcm) 24000
      = Inr \<lparr>blob_bytes = wav_header (length pcm div 2) 24000 @ pcm,
             blob_type = ''audio/wav''\<rparr>"
    by (simp add: pcmToWav_bytes length_int16_elements sample_bytes_int16_elements)
  from a show "fst (englishTextToSpeech svc english w)
      = Inr (wav_header (length pcm div 2) 24000 @ pcm)"
    by (simp add: englishTextToSpeech_payload payload_to_wav_text)
  show "length (wav_header (length pcm div 2) 24000 @ pcm) = 44 + length pcm"
    by simp
  show "getUint32 (wav_header (length pcm div 2) 24000 @ pcm) 24 = 24000"
    by (simp add: wav_header_fields32)
  show "sample_region (wav_header (length pcm div 2) 24000 @ pcm) = pcm"
    by simp
  assume "translate_text svc assamese = Inr (english # others)"
  with a show "fst (translateAndSynthesize svc assamese w)
      = Inr \<lparr>assameseText = assamese, englishText = english,
             wavBuffer = wav_header (length pcm div 2) 24000 @ pcm\<rparr>"
    by (simp add: translateAndSynthesize_payload payload_to_wav_text)
next
  assume a: "gemini_tts svc english = Inr (Some p) \<and> p \<noteq> []"
  then show "fst (englishTextToSpeech svc english w)
      = (case base64ToArrayBuffer p of
           Inl e \<Rightarrow> Inl e
         | Inr decoded \<Rightarrow>
             if even (length decoded)
             then Inr (wav_header (length decoded div 2) 24000 @ decoded)
             else Inl (Thrown RangeErr
                         ''byte length of Int16Array should be a multiple of 2''))"
    by (simp add: englishTextToSpeech_payload payload_to_wav_cases)
  assume "translate_text svc assamese = Inr (english # others)"
  with a show "fst (translateAndSynthesize svc assamese w)
      = (case base64ToArrayBuffer p of
           Inl e \<Rightarrow> Inl e
         | Inr decoded \<Rightarrow>
             if even (length decoded)
             then Inr \<lparr>assameseText = assamese, englishText = english,
                       wavBuffer = wav_header (length decoded div 2) 24000 @ decoded\<rparr>
             else Inl (Thrown RangeErr
                         ''byte length of Int16Array should be a multiple of 2''))"
    by (cases "base64ToArrayBuffer p")
      (simp_all add: translateAndSynthesize_payload payload_to_wav_cases)
next
  assume "\<exists>wav. fst (englishTextToSpeech svc english w) = Inr wav"
  then show "\<exists>payload. gemini_tts svc english = Inr (Some payload) \<and> payload \<noteq> []"
    by (cases "gemini_tts svc english")
      (auto simp add: englishTextToSpeech_result dest: payload_to_wav_Inr)
next
  assume "translate_text svc assamese = Inr (english # others)
      \<and> (\<exists>r. fst (translateAndSynthesize svc assamese w) = Inr r)"
  then show "\<exists>payload. gemini_tts svc english = Inr (Some payload) \<and> payload \<noteq> []"
    using translateAndSynthesize_result [of svc assamese english others w]
    by (cases "gemini_tts svc english") (auto dest: payload_to_wav_Inr [OF sym])
qed


lemma base64ToArrayBuffer_empty: "base64ToArrayBuffer [] = Inr []"
  by (simp add: base64ToArrayBuffer_def atob_def strip_padding_def)

lemma trace_translateAndSynthesize:
  "\<exists>t. trace (snd (translateAndSynthesize svc assamese w)) = trace w @ t
     \<and> prefix t [Call Translator, Return Translator, Call Synthesizer, Return Synthesizer]"
proof (cases "translate_text svc assamese")
  case (Inl e)
  then show ?thesis by (simp add: translateAndSynthesize_tail)
next
  case (Inr texts)
  show ?thesis
  proof (cases texts)
    case Nil
    with Inr show ?thesis by (simp add: translateAndSynthesize_tail first_of_def)
  next
    case (Cons english others)
    show ?thesis
    proof (cases "gemini_tts svc english")
      case (Inl e)
      with Inr Cons show ?thesis by (simp add: translateAndSynthesize_tail first_of_def)
    next
      case tts: (Inr audioData)
      with Inr Cons show ?thesis
        by (cases "payload_to_wav ''Gemini did not return audio.'' audioData")
          (simp_all add: translateAndSynthesize_tail first_of_def)
    qed
  qed
qed

lemma trace_runTranslationPipeline:
  "\<exists>t. trace (snd (runTranslationPipeline svc audio enc rate w)) = trace w @ t
     \<and> prefix t stage_order"
proof (cases "speech_recognize svc audio enc rate")
  case (Inl e)
  then show ?thesis by (simp add: runTranslationPipeline_def stage_order_def)
next
  case (Inr results)
  show ?thesis
  proof (cases "first_transcripts results")
    case (Inl e)
    with Inr show ?thesis by (simp add: runTranslationPipeline_def stage_order_def)
  next
    case ts: (Inr transcripts)
    show ?thesis
    proof (cases "join_lines transcripts = []")
      case True
      with Inr ts show ?thesis by (simp add: runTranslationPipeline_def stage_order_def)
    next
      case False
      let ?w = "w\<lparr>trace := trace w @ [Call Recognizer, Return Recognizer]\<rparr>"
      from trace_translateAndSynthesize [of svc "join_lines transcripts" ?w]
      obtain t where "trace (snd (translateAndSynthesize svc (join_lines transcripts) ?w))
          = trace ?w @ t"
        and "prefix t [Call Translator, Return Translator, Call Synthesizer, Return Synthesizer]"
        by blast
      with Inr ts False show ?thesis
        by (simp add: runTranslationPipeline_def stage_order_def)
    qed
  qed
qed


lemma normalize_temp [simp]: "normalize_dir ''./temp'' = ''temp''"
  by (simp add: normalize_dir_def)

lemma make_temp_and_write:
  "fst inP = ''temp'' \<Longrightarrow>
   bindW (if \<not> existsSync_dir ''./temp'' w then mkdirSync ''./temp'' else Pair (Inr ()))
     (\<lambda>_. writeFileSync inP content) w
   = (Inr (), w\<lparr>dirs := insert ''temp'' (dirs w), files := (files w)(inP \<mapsto> content)\<rparr>)"
  by (simp add: bindW_def existsSync_dir_def mkdirSync_def writeFileSync_def insert_absorb)

lemma end_handler:
  "inP \<noteq> outP \<Longrightarrow> files w inP = Some content \<Longrightarrow> files w outP = Some out \<Longrightarrow>
   bindW (readFileSync outP) (\<lambda>cleanedBuffer.
     bindW (unlinkSync inP) (\<lambda>_.
     bindW (unlinkSync outP) (\<lambda>_.
     Pair (Inr cleanedBuffer)))) w
   = (Inr out, w\<lparr>files := (files w)(inP := None, outP := None)\<rparr>)"
  by (simp add: bindW_def readFileSync_def unlinkSync_def)

lemma dsp_body:
  assumes "inP \<noteq> outP" and "fst inP = ''temp''" and "cmd_input cmd0 = inP"
  shows "(case bindW (if \<not> existsSync_dir ''./temp'' w then mkdirSync ''./temp''
                      else Pair (Inr ()))
                (\<lambda>_. writeFileSync inP inputBuffer) w of
           (Inl error, w1) \<Rightarrow> (Rejected error, w1)
         | (Inr _, w1) \<Rightarrow>
             save eng outP
               (\<lambda>w2.
                  case bindW (readFileSync outP) (\<lambda>cleanedBuffer.
                       bindW (unlinkSync inP) (\<lambda>_.
                       bindW (unlinkSync outP) (\<lambda>_.
                       Pair (Inr cleanedBuffer)))) w2 of
                    (Inl e, w') \<Rightarrow> (Uncaught e, w')
                  | (Inr cleanedBuffer, w') \<Rightarrow> (Resolved cleanedBuffer, w'))
               (\<lambda>err w2. (Rejected err, w2))
               cmd0 w1)
    = (case eng (cmd0\<lparr>cmd_output := Some outP\<rparr>) inputBuffer of
        EngineEnd out \<Rightarrow>
          (Resolved out,
           w\<lparr>dirs := insert ''temp'' (dirs w),
             files := (files w)(inP := None, outP := None),
             trace := trace w @ [RunEngine (cmd0\<lparr>cmd_output := Some outP\<rparr>)]\<rparr>)
      | EngineError err None \<Rightarrow>
          (Rejected err,
           w\<lparr>dirs := insert ''temp'' (dirs w),
             files := (files w)(inP \<mapsto> inputBuffer),
             trace := trace w @ [RunEngine (cmd0\<lparr>cmd_output := Some outP\<rparr>)]\<rparr>)
      | EngineError err (Some partial) \<Rightarrow>
          (Rejected err,
           w\<lparr>dirs := insert ''temp'' (dirs w),
             files := (files w)(inP \<mapsto> inputBuffer, outP \<mapsto> partial),
             trace := trace w @ [RunEngine (cmd0\<lparr>cmd_output := Some outP\<rparr>)]\<rparr>))"
proof (cases "eng (cmd0\<lparr>cmd_output := Some outP\<rparr>) inputBuffer")
  case (EngineEnd out)
  from EngineEnd assms show ?thesis
    by (simp add: make_temp_and_write save_def
        end_handler [where content = inputBuffer and out = out])
next
  case (EngineError err partial)
  with assms show ?thesis
    by (cases partial) (simp_all add: make_temp_and_write save_def)
qed

lemma preprocessAudioDSP_cases:
  "preprocessAudioDSP eng uuid inputBuffer w =
     (case eng (conditioning_command uuid) inputBuffer of
        EngineEnd out \<Rightarrow>
          (Resolved out,
           w\<lparr>dirs := insert ''temp'' (dirs w),
             files := (files w)((''temp'', ''raw_'' @ uuid @ ''.wav'') := None,
                                (''temp'', ''clean_'' @ uuid @ ''.wav'') := None),
             trace := trace w @ [RunEngine (conditioning_command uuid)]\<rparr>)
      | EngineError err None \<Rightarrow>
          (Rejected err,
           w\<lparr>dirs := insert ''temp'' (dirs w),
             files := (files w)((''temp'', ''raw_'' @ uuid @ ''.wav'') \<mapsto> inputBuffer),
             trace := trace w @ [RunEngine (conditioning_command uuid)]\<rparr>)
      | EngineError err (Some partial) \<Rightarrow>
          (Rejected err,
           w\<lparr>dirs := insert ''temp'' (dirs w),
             files := (files w)((''temp'', ''raw_'' @ uuid @ ''.wav'') \<mapsto> inputBuffer,
                                (''temp'', ''clean_'' @ uuid @ ''.wav'') \<mapsto> partial),
             trace := trace w @ [RunEngine (conditioning_command uuid)]\<rparr>))"
proof -
  have cmd: "format ''wav'' (audioChannels 1 (audioFrequency 16000
      (audioFilters [''highpass=f=80'', ''lowpass=f=8000'', ''afftdn'',
                     ''silenceremove=1:0:-50dB'', ''loudnorm'']
        (ffmpeg (''temp'', ''raw_'' @ uuid @ ''.wav'')))))\<lparr>cmd_output :=
          Some (''temp'', ''clean_'' @ uuid @ ''.wav'')\<rparr> = conditioning_command uuid"
    by (simp add: format_def audioChannels_def audioFrequency_def audioFilters_def ffmpeg_def
        conditioning_command_def)
  have ne: "(''temp'', ''raw_'' @ uuid @ ''.wav'') \<noteq> (''temp'', ''clean_'' @ uuid @ ''.wav'')"
    by simp
  have dir: "fst (''temp'', ''raw_'' @ uuid @ ''.wav'') = ''temp''"
    by simp
  have inp: "cmd_input (format ''wav'' (audioChannels 1 (audioFrequency 16000
      (audioFilters [''highpass=f=80'', ''lowpass=f=8000'', ''afftdn'',
                     ''silenceremove=1:0:-50dB'', ''loudnorm'']
        (ffmpeg (''temp'', ''raw_'' @ uuid @ ''.wav'')))))) = (''temp'', ''raw_'' @ uuid @ ''.wav'')"
    by (simp add: format_def audioChannels_def audioFrequency_def audioFilters_def ffmpeg_def)
  note body = dsp_body [OF ne dir inp, unfolded cmd]
  show ?thesis
    unfolding preprocessAudioDSP_def Let_def path_join_def normalize_temp
    by (rule body)
qed


lemma payload_example: "base64ToArrayBuffer ''ZACc/w=='' = Inr [100, 0, 156, 255]"
  by code_simp

lemma odd_payload_example: "base64ToArrayBuffer ''ZACc'' = Inr [100, 0, 156]"
  by code_simp

lemma invalid_payload_example:
  "base64ToArrayBuffer ''ZA!c''
     = Inl (Thrown InvalidCharacterErr ''The string to be decoded is not correctly encoded.'')"
  by code_simp

lemma scenario_text: "base64_text [100, 0, 156, 255] = ''ZACc/w==''"
  by code_simp

text \<open>
  The end-to-end scenario: the stub synthesizer answers the base64 text of the samples
  100 and -100, and both servers hand back the 48-byte container at 24000 Hz whose
  sample region is the decoded payload; a synthesizer without a payload; and a payload
  with the character \<open>!\<close>.
\<close>

theorem synthesis_payload_witness:
  "gemini_tts scenario ''hello'' = Inr (Some (base64_text [100, 0, 156, 255]))
   \<and> base64_text [100, 0, 156, 255] = ''ZACc/w==''
   \<and> translate_text scenario ''hello'' = Inr [''hello'']
   \<and> base64ToArrayBuffer (base64_text [100, 0, 156, 255]) = Inr [100, 0, 156, 255]
   \<and> fst (englishTextToSpeech scenario ''hello'' w0)
       = Inr (wav_header 2 24000 @ [100, 0, 156, 255])
   \<and> fst (translateAndSynthesize scenario ''hello'' w0)
       = Inr \<lparr>assameseText = ''hello'', englishText = ''hello'',
              wavBuffer = wav_header 2 24000 @ [100, 0, 156, 255]\<rparr>
   \<and> fst (englishTextToSpeech (scenario\<lparr>gemini_tts := \<lambda>text. Inr None\<rparr>) ''hello'' w0)
       = Inl (Thrown PlainError ''Gemini TTS did not return audio'')
   \<and> fst (translateAndSynthesize (scenario\<lparr>gemini_tts := \<lambda>text. Inr None\<rparr>) ''hello'' w0)
       = Inl (Thrown PlainError ''Gemini did not return audio.'')
   \<and> CHR ''!'' \<in> set ''ZA!c'' \<and> \<not> ascii_whitespace CHR ''!'' \<and> b64_index CHR ''!'' = None
   \<and> base64ToArrayBuffer ''ZA!c''
       = Inl (Thrown InvalidCharacterErr ''The string to be decoded is not correctly encoded.'')"
proof -
  have tts: "gemini_tts scenario ''hello'' = Inr (Some (base64_text [100, 0, 156, 255]))"
    and tr: "translate_text scenario ''hello'' = Inr [''hello'']"
    by (simp_all add: scenario_def scenario_text)
  have l: "length [100, 0, 156, 255 :: byte] div 2 = 2" by simp
  have bang: "CHR ''!'' \<in> set ''ZA!c''" "\<not> ascii_whitespace CHR ''!''" "b64_index CHR ''!'' = None"
    by (simp_all add: ascii_whitespace_def b64_index_def)
  note ok = synthesis_payload
    [where svc = scenario and english = "''hello''" and w = w0 and assamese = "''hello''"
       and others = "[]" and pcm = "[100, 0, 156, 255]" and p = "''ZA!c''" and c = "CHR ''!''",
     unfolded l]
  note missing = synthesis_payload
    [where svc = "scenario\<lparr>gemini_tts := \<lambda>text. Inr None\<rparr>" and english = "''hello''"
       and w = w0 and assamese = "''hello''" and others = "[]"]
  have tts': "gemini_tts (scenario\<lparr>gemini_tts := \<lambda>text. Inr None\<rparr>) ''hello'' = Inr None"
    and tr': "translate_text (scenario\<lparr>gemini_tts := \<lambda>text. Inr None\<rparr>) ''hello''
      = Inr [''hello'']"
    by (simp_all add: scenario_def)
  from ok tts tr bang have
    "base64ToArrayBuffer (base64_text [100, 0, 156, 255]) = Inr [100, 0, 156, 255]"
    "fst (englishTextToSpeech scenario ''hello'' w0)
       = Inr (wav_header 2 24000 @ [100, 0, 156, 255])"
    "fst (translateAndSynthesize scenario ''hello'' w0)
       = Inr \<lparr>assameseText = ''hello'', englishText = ''hello'',
              wavBuffer = wav_header 2 24000 @ [100, 0, 156, 255]\<rparr>"
    "base64ToArrayBuffer ''ZA!c''
       = Inl (Thrown InvalidCharacterErr ''The string to be decoded is not correctly encoded.'')"
    by simp_all
  moreover from missing tts' tr' have
    "fst (englishTextToSpeech (scenario\<lparr>gemini_tts := \<lambda>text. Inr None\<rparr>) ''hello'' w0)
       = Inl (Thrown PlainError ''Gemini TTS did not return audio'')"
    "fst (translateAndSynthesize (scenario\<lparr>gemini_tts := \<lambda>text. Inr None\<rparr>) ''hello'' w0)
       = Inl (Thrown PlainError ''Gemini did not return audio.'')"
    by simp_all
  ultimately show ?thesis using tts tr bang scenario_text by simp
qed

text \<open>
  The claim as stated fails on a payload that is not empty and not the base64 text of
  16-bit samples. \<open>ZACc\<close> is the base64 text of three bytes: the run fails with a
  RangeError, which is not the synthesis stage's error, and returns no container.
  \<open>ZA!c\<close> is not base64: the run fails with the decoder's error.
\<close>

theorem nonempty_payload_counterexample:
  "gemini_tts (scenario\<lparr>gemini_tts := \<lambda>text. Inr (Some ''ZACc'')\<rparr>) ''hello''
     = Inr (Some ''ZACc'')
   \<and> ''ZACc'' \<noteq> []
   \<and> base64_text [100, 0, 156] = ''ZACc''
   \<and> fst (englishTextToSpeech (scenario\<lparr>gemini_tts := \<lambda>text. Inr (Some ''ZACc'')\<rparr>)
            ''hello'' w0)
       = Inl (Thrown RangeErr ''byte length of Int16Array should be a multiple of 2'')
   \<and> fst (translateAndSynthesize (scenario\<lparr>gemini_tts := \<lambda>text. Inr (Some ''ZACc'')\<rparr>)
            ''hello'' w0)
       = Inl (Thrown RangeErr ''byte length of Int16Array should be a multiple of 2'')
   \<and> fst (englishTextToSpeech (scenario\<lparr>gemini_tts := \<lambda>text. Inr (Some ''ZA!c'')\<rparr>)
            ''hello'' w0)
       = Inl (Thrown InvalidCharacterErr ''The string to be decoded is not correctly encoded.'')
   \<and> fst (translateAndSynthesize (scenario\<lparr>gemini_tts := \<lambda>text. Inr (Some ''ZA!c'')\<rparr>)
            ''hello'' w0)
       = Inl (Thrown InvalidCharacterErr ''The string to be decoded is not correctly encoded.'')"
proof -
  have t: "base64_text [100, 0, 156] = ''ZACc''" by code_simp
  have n: "''ZACc'' \<noteq> []" "''ZA!c'' \<noteq> []" by simp_all
  have o: "odd (length [100, 0, 156 :: byte])" by simp
  have odd_wav: "payload_to_wav msg (Some ''ZACc'')
      = Inl (Thrown RangeErr ''byte length of Int16Array should be a multiple of 2'')" for msg
    using n(1) odd_payload_example o by (rule payload_to_wav_odd)
  have bad_wav: "payload_to_wav msg (Some ''ZA!c'')
      = Inl (Thrown InvalidCharacterErr ''The string to be decoded is not correctly encoded.'')"
    for msg
    using n(2) by (simp add: payload_to_wav_cases invalid_payload_example)
  show ?thesis
    using t
    by (simp add: englishTextToSpeech_tail translateAndSynthesize_tail scenario_def first_of_def
        odd_wav bad_wav)
qed

text \<open>
  Claim C10 (odd payloads). Whenever the base64 text decodes, to \<open>pcmData\<close>: if the
  number of decoded bytes is odd, constructing the \<open>Int16Array\<close> throws a RangeError,
  and so \<open>translateAndSynthesize\<close> fails with that RangeError when the synthesizer
  answers this text; if it is even, the view has exactly half as many samples as there
  are bytes; and the view exists only in the even case, so no truncated sample
  sequence is ever produced.
\<close>

theorem odd_payload_range_error:
  "base64ToArrayBuffer base64 = Inr pcmData \<Longrightarrow>
     (odd (length pcmData) \<longrightarrow>
        Int16Array_of pcmData
          = Inl (Thrown RangeErr ''byte length of Int16Array should be a multiple of 2'')
        \<and> (translate_text svc assamese = Inr (english # others)
             \<and> gemini_tts svc english = Inr (Some base64) \<longrightarrow>
            fst (translateAndSynthesize svc assamese w)
              = Inl (Thrown RangeErr ''byte length of Int16Array should be a multiple of 2'')))
   \<and> (even (length pcmData) \<longrightarrow>
        (\<exists>pcm16. Int16Array_of pcmData = Inr pcm16
           \<and> length pcm16 = length pcmData div 2))
   \<and> (\<forall>pcm16. Int16Array_of pcmData = Inr pcm16 \<longrightarrow>
          even (length pcmData) \<and> length pcm16 = length pcmData div 2)"
proof (intro conjI impI allI)
  assume b: "base64ToArrayBuffer base64 = Inr pcmData" and o: "odd (length pcmData)"
  show "Int16Array_of pcmData
      = Inl (Thrown RangeErr ''byte length of Int16Array should be a multiple of 2'')"
    using o by (rule Int16Array_of_odd)
  assume "translate_text svc assamese = Inr (english # others)
      \<and> gemini_tts svc english = Inr (Some base64)"
  moreover have "base64 \<noteq> []"
    using b o by (auto simp add: base64ToArrayBuffer_empty)
  ultimately show "fst (translateAndSynthesize svc assamese w)
      = Inl (Thrown RangeErr ''byte length of Int16Array should be a multiple of 2'')"
    using b o by (simp add: translateAndSynthesize_tail first_of_def payload_to_wav_odd)
next
  assume "even (length pcmData)"
  then show "\<exists>pcm16. Int16Array_of pcmData = Inr pcm16 \<and> length pcm16 = length pcmData div 2"
    by (simp add: Int16Array_of_even length_int16_elements)
next
  fix pcm16
  assume "Int16Array_of pcmData = Inr pcm16"
  then show "even (length pcmData)" "length pcm16 = length pcmData div 2"
    by (auto simp add: Int16Array_of_def length_int16_elements split: if_splits)
qed

text \<open>
  ZACc decodes to three bytes and is refused; ZACc/w== decodes to four bytes, the
  samples 100 and -100.
\<close>

theorem odd_payload_range_error_witness:
  "base64ToArrayBuffer ''ZACc'' = Inr [100, 0, 156]
   \<and> odd (length [100, 0, 156 :: byte])
   \<and> Int16Array_of [100, 0, 156]
       = Inl (Thrown RangeErr ''byte length of Int16Array should be a multiple of 2'')
   \<and> fst (translateAndSynthesize (scenario\<lparr>gemini_tts := \<lambda>text. Inr (Some ''ZACc'')\<rparr>)
            ''hello'' w0)
       = Inl (Thrown RangeErr ''byte length of Int16Array should be a multiple of 2'')
   \<and> base64ToArrayBuffer ''ZACc/w=='' = Inr [100, 0, 156, 255]
   \<and> Int16Array_of [100, 0, 156, 255] = Inr [100, - 100]"
proof -
  have ev: "Int16Array_of [100, 0, 156, 255] = Inr [100, - 100]"
    by code_simp
  from odd_payload_range_error [OF odd_payload_example,
      of "scenario\<lparr>gemini_tts := \<lambda>text. Inr (Some ''ZACc'')\<rparr>" "''hello''" "''hello''" "[]" w0]
  show ?thesis
    using odd_payload_example payload_example ev by (simp add: scenario_def)
qed

text \<open>
  Claim C6 (filter chain). For every engine, uuid, input buffer and world,
  \<open>preprocessAudioDSP\<close> runs the engine exactly once, on the input buffer, with the
  command whose filters are, in this order, high-pass at 80 Hz, low-pass at 8000 Hz,
  \<open>afftdn\<close> (spectral noise reduction), silence removal below -50 dB and \<open>loudnorm\<close>
  (loudness normalisation), at 16000 Hz, 1 channel, in wav format; the promise resolves
  with what the engine wrote and rejects with the engine's error.
\<close>

theorem conditioning_filter_chain:
  "\<exists>cmd. trace (snd (preprocessAudioDSP eng uuid inputBuffer w)) = trace w @ [RunEngine cmd]
     \<and> cmd_filters cmd
       = [''highpass=f=80'', ''lowpass=f=8000'', ''afftdn'', ''silenceremove=1:0:-50dB'',
          ''loudnorm'']
     \<and> cmd_frequency cmd = Some 16000
     \<and> cmd_channels cmd = Some 1
     \<and> cmd_format cmd = Some ''wav''
     \<and> fst (preprocessAudioDSP eng uuid inputBuffer w)
       = (case eng cmd inputBuffer of
            EngineEnd out \<Rightarrow> Resolved out
          | EngineError err partial \<Rightarrow> Rejected err)"
  by (rule exI [of _ "conditioning_command uuid"])
    (simp add: preprocessAudioDSP_cases conditioning_command_def
      split: engine_result.split option.split)

text \<open>
  A run on the bytes 1, 2, 3 with the identity engine.
\<close>

theorem conditioning_filter_chain_witness:
  "\<exists>cmd. trace (snd (preprocessAudioDSP (ffmpeg_engine scenario) ''u1'' [1, 2, 3] w0))
       = trace w0 @ [RunEngine cmd]
     \<and> cmd_filters cmd
       = [''highpass=f=80'', ''lowpass=f=8000'', ''afftdn'', ''silenceremove=1:0:-50dB'',
          ''loudnorm'']
     \<and> cmd_frequency cmd = Some 16000
     \<and> cmd_channels cmd = Some 1
     \<and> cmd_format cmd = Some ''wav''
     \<and> fst (preprocessAudioDSP (ffmpeg_engine scenario) ''u1'' [1, 2, 3] w0)
       = Resolved [1, 2, 3]"
  using conditioning_filter_chain [of "ffmpeg_engine scenario" "''u1''" "[1, 2, 3]" w0]
  by (simp add: scenario_def)

lemma emitsD:
  "emits m seg \<Longrightarrow>
   \<exists>t. trace (snd (m w)) = trace w @ t \<and> prefix t seg
     \<and> (\<forall>x. fst (m w) = Resolved x \<longrightarrow> t = seg)"
  unfolding emits_def by (rule spec)

lemma emits_bindO:
  assumes m: "emits m s1" and f: "\<And>x. emits (f x) s2"
  shows "emits (bindO m f) (s1 @ s2)"
  unfolding emits_def
proof
  fix w
  obtain r w1 where mw: "m w = (r, w1)" by (cases "m w")
  from emitsD [OF m, of w] obtain t1 where t1: "trace (snd (m w)) = trace w @ t1" "prefix t1 s1"
    and full1: "\<And>x. fst (m w) = Resolved x \<Longrightarrow> t1 = s1"
    by blast
  show "\<exists>t. trace (snd (bindO m f w)) = trace w @ t \<and> prefix t (s1 @ s2)
      \<and> (\<forall>x. fst (bindO m f w) = Resolved x \<longrightarrow> t = s1 @ s2)"
  proof (cases r)
    case (Resolved x)
    from emitsD [OF f, of x w1] obtain t2 where t2: "trace (snd (f x w1)) = trace w1 @ t2" "prefix t2 s2"
      and full2: "\<And>y. fst (f x w1) = Resolved y \<Longrightarrow> t2 = s2"
      by blast
    from full1 [of x] mw Resolved have "t1 = s1" by simp
    with t1 t2 full2 mw Resolved show ?thesis
      by (intro exI [of _ "s1 @ t2"]) (simp add: bindO_def)
  next
    case (Rejected e)
    with t1 mw show ?thesis
      by (intro exI [of _ t1]) (simp add: bindO_def prefix_prefix)
  next
    case (Uncaught e)
    with t1 mw show ?thesis
      by (intro exI [of _ t1]) (simp add: bindO_def prefix_prefix)
  qed
qed

lemma emits_silent:
  "(\<And>w. trace (snd (m w)) = trace w) \<Longrightarrow> emits m []"
  by (simp add: emits_def)

lemma trace_settle [simp]: "trace (snd (settle m w)) = trace (snd (m w))"
  by (simp add: settle_def split: prod.splits sum.splits)

lemma trace_writeFileSync [simp]: "trace (snd (writeFileSync p c w)) = trace w"
  by (simp add: writeFileSync_def)

lemma trace_unlinkSync [simp]: "trace (snd (unlinkSync p w)) = trace w"
  by (simp add: unlinkSync_def)

lemma trace_readFileSync [simp]: "trace (snd (readFileSync p w)) = trace w"
  by (simp add: readFileSync_def split: option.splits)

lemma trace_unlink_if_exists [simp]: "trace (snd (unlink_if_exists p w)) = trace w"
  by (simp add: unlink_if_exists_def)

lemma emits_preprocessAudioDSP:
  "emits (preprocessAudioDSP eng uuid inputBuffer) [RunEngine (conditioning_command uuid)]"
  by (simp add: emits_def preprocessAudioDSP_cases split: engine_result.split option.split)

lemma emits_settle_call:
  "emits (settle (bindW (call c answer) (\<lambda>x. Pair (g x)))) [Call c, Return c]"
  by (cases answer) (auto simp add: emits_def settle_def split: sum.splits)

lemma emits_speechToAssameseText:
  "emits (settle (speechToAssameseText svc audioPath)) [Call Recognizer, Return Recognizer]"
  unfolding emits_def
proof
  fix w
  show "\<exists>t. trace (snd (settle (speechToAssameseText svc audioPath) w)) = trace w @ t
      \<and> prefix t [Call Recognizer, Return Recognizer]
      \<and> (\<forall>x. fst (settle (speechToAssameseText svc audioPath) w) = Resolved x
            \<longrightarrow> t = [Call Recognizer, Return Recognizer])"
  proof (cases "files w audioPath")
    case None
    then show ?thesis
      by (simp add: speechToAssameseText_def bindW_def settle_def call_def)
  next
    case (Some audio)
    then show ?thesis
      by (cases "whisper_transcribe svc audio")
        (auto simp add: speechToAssameseText_def bindW_def settle_def
          call_def split: option.splits)
  qed
qed

lemma emits_translateAssameseToEnglish:
  "emits (settle (translateAssameseToEnglish svc assamese)) [Call Translator, Return Translator]"
  unfolding translateAssameseToEnglish_def by (rule emits_settle_call)

lemma emits_englishTextToSpeech:
  "emits (settle (englishTextToSpeech svc english)) [Call Synthesizer, Return Synthesizer]"
  unfolding englishTextToSpeech_tail by (rule emits_settle_call)

lemma emits_translate_audio_try:
  "emits (translate_audio_try svc tempId dspId buffer)
     (RunEngine (conditioning_command dspId) # stage_order)"
proof -
  have "emits (translate_audio_try svc tempId dspId buffer)
     ([] @ [RunEngine (conditioning_command dspId)] @ [] @ [Call Recognizer, Return Recognizer]
       @ [Call Translator, Return Translator] @ [Call Synthesizer, Return Synthesizer]
       @ [] @ [] @ [])"
    unfolding translate_audio_try_def Let_def
    by (intro emits_bindO emits_silent emits_preprocessAudioDSP emits_speechToAssameseText
        emits_translateAssameseToEnglish emits_englishTextToSpeech) simp_all
  then show ?thesis by (simp add: stage_order_def)
qed

lemma trace_api_translate_audio:
  "\<exists>t. trace (snd (api_translate_audio svc tempId dspId req w)) = trace w @ t
     \<and> prefix t (RunEngine (conditioning_command dspId) # stage_order)"
proof (cases "req_file req")
  case None
  then show ?thesis by (simp add: api_translate_audio_def)
next
  case (Some buffer)
  obtain r w1 where run: "translate_audio_try svc tempId dspId buffer w = (r, w1)"
    by (cases "translate_audio_try svc tempId dspId buffer w")
  from emitsD [OF emits_translate_audio_try, of svc tempId dspId buffer w]
  obtain t where t: "trace (snd (translate_audio_try svc tempId dspId buffer w)) = trace w @ t"
    "prefix t (RunEngine (conditioning_command dspId) # stage_order)"
    by blast
  have "trace (snd (api_translate_audio svc tempId dspId req w)) = trace w1"
    using Some run
    by (cases r)
      (auto simp add: api_translate_audio_def Let_def bindW_def unlink_if_exists_def
        unlinkSync_def split: prod.splits sum.splits)
  with t run show ?thesis by auto
qed


lemma unlink_if_exists_ok [simp]: "fst (unlink_if_exists p w) = Inr ()"
  by (simp add: unlink_if_exists_def unlinkSync_def existsSync_def)

lemma unlink_if_exists_ex: "\<exists>w'. unlink_if_exists p w = (Inr (), w')"
  by (simp add: unlink_if_exists_def unlinkSync_def existsSync_def)


lemma api_translate_audio_rejected:
  assumes "req_file req = Some buffer"
    and "fst (translate_audio_try svc tempId dspId buffer w) = Rejected e"
  shows "fst (api_translate_audio svc tempId dspId req w)
    = Some (json [(''success'', JBool False), (''error'', JString (message e))] (status 500 res))"
proof -
  obtain w1 where run: "translate_audio_try svc tempId dspId buffer w = (Rejected e, w1)"
    using assms(2) by (cases "translate_audio_try svc tempId dspId buffer w") simp
  obtain w2 where u1: "unlink_if_exists (''temp'', ''raw_'' @ tempId @ ''.wav'') w1 = (Inr (), w2)"
    using unlink_if_exists_ex [of "(''temp'', ''raw_'' @ tempId @ ''.wav'')" w1] by blast
  obtain w3 where u2: "unlink_if_exists (''temp'', ''cleaned_'' @ tempId @ ''.wav'') w2 = (Inr (), w3)"
    using unlink_if_exists_ex [of "(''temp'', ''cleaned_'' @ tempId @ ''.wav'')" w2] by blast
  show ?thesis
    using assms(1) run u1 u2 by (simp add: api_translate_audio_def Let_def bindW_def)
qed



lemma scenario_payload:
  "payload_to_wav msg (Some ''ZACc/w=='') = Inr (wav_header 2 24000 @ [100, 0, 156, 255])"
proof -
  have e: "even (length [100, 0, 156, 255 :: byte])" by simp
  have l: "length [100, 0, 156, 255 :: byte] div 2 = 2" by simp
  have n: "''ZACc/w=='' \<noteq> []" by simp
  show ?thesis
    using payload_to_wav_even [OF n payload_example e, of msg] unfolding l .
qed

text \<open>
  The container of the end-to-end scenario: 48 bytes, RIFF size field 40, data size
  field 4.
\<close>

lemma scenario_container:
  "length (wav_header 2 24000 @ [100, 0, 156, 255]) = 48"
  "getUint32 (wav_header 2 24000 @ [100, 0, 156, 255]) 4 = 40"
  "getUint32 (wav_header 2 24000 @ [100, 0, 156, 255]) 40 = 4"
  by (simp_all add: wav_header_fields32)

lemma scenario_translateAndSynthesize:
  "translateAndSynthesize scenario assamese w
     = (Inr \<lparr>assameseText = assamese, englishText = ''hello'',
              wavBuffer = wav_header 2 24000 @ [100, 0, 156, 255]\<rparr>,
        w\<lparr>trace := trace w @ [Call Translator, Return Translator,
                                Call Synthesizer, Return Synthesizer]\<rparr>)"
  by (simp add: translateAndSynthesize_tail scenario_def first_of_def scenario_payload)

lemma scenario_runTranslationPipeline:
  "runTranslationPipeline scenario audio enc rate w
     = (Inr \<lparr>assameseText = ''hello'', englishText = ''hello'',
              wavBuffer = wav_header 2 24000 @ [100, 0, 156, 255]\<rparr>,
        w\<lparr>trace := trace w @ stage_order\<rparr>)"
proof -
  have "speech_recognize scenario audio enc rate = Inr [[Some ''hello'']]"
    by (simp add: scenario_def)
  then show ?thesis
    by (simp add: runTranslationPipeline_def first_of_def scenario_translateAndSynthesize
        stage_order_def)
qed

text \<open>
  Claim C5 (stage ordering). In every run of \<open>runTranslationPipeline\<close>, of
  \<open>translateAndSynthesize\<close> and of the handler of \<open>/api/translate-audio\<close>, for every
  input and whatever the services answer, the events the run adds to the trace are an
  initial part of: (engine run,) recognizer called, recognizer returned, translator
  called, translator returned, synthesizer called, synthesizer returned. So the
  translator is never called before the recognizer has returned, nor the synthesizer
  before the translator has, and no service is called twice.
\<close>

theorem stages_run_in_order:
  "(\<exists>t. trace (snd (runTranslationPipeline svc audio enc rate w)) = trace w @ t
        \<and> prefix t stage_order)
   \<and> (\<exists>t. trace (snd (translateAndSynthesize svc assamese w)) = trace w @ t
        \<and> prefix t [Call Translator, Return Translator, Call Synthesizer, Return Synthesizer])
   \<and> (\<exists>t. trace (snd (api_translate_audio svc tempId dspId req w)) = trace w @ t
        \<and> prefix t (RunEngine (conditioning_command dspId) # stage_order))"
  using trace_runTranslationPipeline [of svc audio enc rate w]
    trace_translateAndSynthesize [of svc assamese w]
    trace_api_translate_audio [of svc tempId dspId req w]
  by simp

text \<open>
  The end-to-end scenario runs through all six events.
\<close>

theorem stages_run_in_order_witness:
  "trace (snd (runTranslationPipeline scenario [1, 2, 3] ''WEBM_OPUS'' 48000 w0))
     = [Call Recognizer, Return Recognizer, Call Translator, Return Translator,
        Call Synthesizer, Return Synthesizer]
   \<and> (\<exists>t. trace (snd (runTranslationPipeline scenario [1, 2, 3] ''WEBM_OPUS'' 48000 w0))
          = trace w0 @ t \<and> prefix t stage_order)
   \<and> (\<exists>t. trace (snd (api_translate_audio scenario ''t1'' ''u1''
          \<lparr>req_file = Some [1, 2, 3], req_text = None\<rparr> w0)) = trace w0 @ t
        \<and> prefix t (RunEngine (conditioning_command ''u1'') # stage_order))"
  using stages_run_in_order [of scenario "[1, 2, 3]" "''WEBM_OPUS''" 48000 w0 "''hello''"
      "''t1''" "''u1''" "\<lparr>req_file = Some [1, 2, 3], req_text = None\<rparr>"]
  by (simp add: scenario_runTranslationPipeline stage_order_def w0_def)



lemma join_lines_two_empty: "join_lines [Some [], Some []] = [CHR 0x0A]"
  by simp




text \<open>
  Claim C9 (response contract). For \<open>/api/translate\<close> and \<open>/api/text-translate\<close>: when
  the run succeeds, the response has status 200, media type audio/wav, the container as
  body and a Content-Length equal to the container's byte length; when the upload or
  the text is missing, or the run fails, the response is \<open>{error: message}\<close> with status
  400 or 500. On \<open>/api/text-translate\<close> the Content-Length is the one \<open>res.send\<close> sets.
\<close>

theorem endpoint_responses:
  "(case req_file req of
      None \<Rightarrow> error_response (fst (api_translate svc req w)) ''No audio file provided.''
    | Some buffer \<Rightarrow>
        (case fst (runTranslationPipeline svc buffer ''WEBM_OPUS'' 48000 w) of
           Inr result \<Rightarrow> wav_response (fst (api_translate svc req w)) (wavBuffer result)
         | Inl error \<Rightarrow> error_response (fst (api_translate svc req w)) (message error)))
   \<and> (case req_text req of
        None \<Rightarrow> error_response (fst (api_text_translate svc req w)) ''No text provided.''
      | Some assamese \<Rightarrow>
          if assamese = []
          then error_response (fst (api_text_translate svc req w)) ''No text provided.''
          else (case fst (translateAndSynthesize svc assamese w) of
                  Inr result \<Rightarrow>
                    wav_response (fst (api_text_translate svc req w)) (wavBuffer result)
                | Inl error \<Rightarrow>
                    error_response (fst (api_text_translate svc req w)) (message error)))"
proof
  show "case req_file req of
      None \<Rightarrow> error_response (fst (api_translate svc req w)) ''No audio file provided.''
    | Some buffer \<Rightarrow>
        (case fst (runTranslationPipeline svc buffer ''WEBM_OPUS'' 48000 w) of
           Inr result \<Rightarrow> wav_response (fst (api_translate svc req w)) (wavBuffer result)
         | Inl error \<Rightarrow> error_response (fst (api_translate svc req w)) (message error))"
    by (auto simp add: api_translate_def error_response_def wav_response_def json_def
        status_def res_def send_def setHeader_def
        split: option.splits sum.splits prod.splits)
  show "case req_text req of
        None \<Rightarrow> error_response (fst (api_text_translate svc req w)) ''No text provided.''
      | Some assamese \<Rightarrow>
          if assamese = []
          then error_response (fst (api_text_translate svc req w)) ''No text provided.''
          else (case fst (translateAndSynthesize svc assamese w) of
                  Inr result \<Rightarrow>
                    wav_response (fst (api_text_translate svc req w)) (wavBuffer result)
                | Inl error \<Rightarrow>
                    error_response (fst (api_text_translate svc req w)) (message error))"
    by (auto simp add: api_text_translate_def error_response_def wav_response_def json_def
        status_def res_def send_def setHeader_def
        split: option.splits sum.splits prod.splits)
qed

text \<open>
  Both endpoints in the end-to-end scenario, a 48-byte container; a request without a
  file; and a text request whose synthesis returns no payload.
\<close>

theorem endpoint_responses_witness:
  "wav_response
     (fst (api_translate scenario \<lparr>req_file = Some [1, 2, 3], req_text = Some ''hello''\<rparr> w0))
     (wav_header 2 24000 @ [100, 0, 156, 255])
   \<and> wav_response
     (fst (api_text_translate scenario
        \<lparr>req_file = Some [1, 2, 3], req_text = Some ''hello''\<rparr> w0))
     (wav_header 2 24000 @ [100, 0, 156, 255])
   \<and> length (wav_header 2 24000 @ [100, 0, 156, 255]) = 48
   \<and> error_response
     (fst (api_translate scenario \<lparr>req_file = None, req_text = None\<rparr> w0))
     ''No audio file provided.''
   \<and> error_response
     (fst (api_text_translate (scenario\<lparr>gemini_tts := \<lambda>text. Inr None\<rparr>)
        \<lparr>req_file = None, req_text = Some ''hello''\<rparr> w0))
     ''Gemini did not return audio.''"
proof -
  have ok: "wav_response
     (fst (api_translate scenario \<lparr>req_file = Some [1, 2, 3], req_text = Some ''hello''\<rparr> w0))
     (wav_header 2 24000 @ [100, 0, 156, 255])
   \<and> wav_response
     (fst (api_text_translate scenario
        \<lparr>req_file = Some [1, 2, 3], req_text = Some ''hello''\<rparr> w0))
     (wav_header 2 24000 @ [100, 0, 156, 255])"
    using endpoint_responses
      [where req = "\<lparr>req_file = Some [1, 2, 3], req_text = Some ''hello''\<rparr>"
         and svc = scenario and w = w0]
    by (simp add: scenario_runTranslationPipeline scenario_translateAndSynthesize)
  have no_file: "error_response
     (fst (api_translate scenario \<lparr>req_file = None, req_text = None\<rparr> w0))
     ''No audio file provided.''"
    using endpoint_responses
      [where req = "\<lparr>req_file = None, req_text = None\<rparr>" and svc = scenario and w = w0]
    by simp
  have "fst (translateAndSynthesize (scenario\<lparr>gemini_tts := \<lambda>text. Inr None\<rparr>) ''hello'' w0)
      = Inl (Thrown PlainError ''Gemini did not return audio.'')"
    by (simp add: translateAndSynthesize_tail first_of_def payload_to_wav_missing scenario_def)
  then have no_audio: "error_response
     (fst (api_text_translate (scenario\<lparr>gemini_tts := \<lambda>text. Inr None\<rparr>)
        \<lparr>req_file = None, req_text = Some ''hello''\<rparr> w0))
     ''Gemini did not return audio.''"
    using endpoint_responses
      [where req = "\<lparr>req_file = None, req_text = Some ''hello''\<rparr>"
         and svc = "scenario\<lparr>gemini_tts := \<lambda>text. Inr None\<rparr>" and w = w0]
    by simp
  from ok no_file no_audio show ?thesis by simp
qed

lemma bindO_not_uncaught:
  assumes "\<And>w e. fst (m w) \<noteq> Uncaught e" and "\<And>x w e. fst (f x w) \<noteq> Uncaught e"
  shows "fst (bindO m f w) \<noteq> Uncaught e"
proof (cases "m w")
  case (Pair r w1)
  with assms(1) [of w] assms(2) show ?thesis
    by (cases r) (simp_all add: bindO_def)
qed

lemma settle_not_uncaught: "fst (settle m w) \<noteq> Uncaught e"
  by (simp add: settle_def split: prod.splits sum.splits)

lemma preprocessAudioDSP_not_uncaught:
  "fst (preprocessAudioDSP eng uuid inputBuffer w) \<noteq> Uncaught e"
  by (simp add: preprocessAudioDSP_cases split: engine_result.splits option.splits)

lemma translate_audio_try_not_uncaught:
  "fst (translate_audio_try svc tempId dspId buffer w) \<noteq> Uncaught e"
  unfolding translate_audio_try_def Let_def
  by (intro bindO_not_uncaught settle_not_uncaught preprocessAudioDSP_not_uncaught) simp

lemma api_translate_audio_answers:
  "\<exists>r. fst (api_translate_audio svc tempId dspId req w) = Some r"
proof (cases "req_file req")
  case None
  then show ?thesis by (simp add: api_translate_audio_def)
next
  case (Some buffer)
  obtain r w1 where run: "translate_audio_try svc tempId dspId buffer w = (r, w1)"
    by (cases "translate_audio_try svc tempId dspId buffer w")
  show ?thesis
  proof (cases r)
    case (Resolved x)
    with Some run show ?thesis by (simp add: api_translate_audio_def)
  next
    case (Rejected e)
    with Some run show ?thesis
      using api_translate_audio_rejected [of req buffer svc tempId dspId w e] by simp
  next
    case (Uncaught e)
    with run translate_audio_try_not_uncaught [of svc tempId dspId buffer w e]
    show ?thesis by simp
  qed
qed

lemma try_success:
  assumes "''temp'' \<in> dirs w" and "tempId \<noteq> dspId"
    and "ffmpeg_engine svc (conditioning_command dspId) buffer = EngineEnd cleaned"
    and "whisper_transcribe svc cleaned = Inr (Some assamese)" and "assamese \<noteq> []"
    and "translate_text svc assamese = Inr (english # others)"
    and "gemini_tts svc english = Inr payload"
    and "payload_to_wav ''Gemini TTS did not return audio'' payload = Inr wav"
  shows "fst (translate_audio_try svc tempId dspId buffer w) = Resolved wav"
    and "files (snd (translate_audio_try svc tempId dspId buffer w))
      = (files w)((''temp'', ''raw_'' @ tempId @ ''.wav'') := None,
                  (''temp'', ''cleaned_'' @ tempId @ ''.wav'') := None,
                  (''temp'', ''raw_'' @ dspId @ ''.wav'') := None,
                  (''temp'', ''clean_'' @ dspId @ ''.wav'') := None)"
  using assms
  by (auto simp add: translate_audio_try_def Let_def bindO_def settle_def writeFileSync_def
      preprocessAudioDSP_cases speechToAssameseText_def translateAssameseToEnglish_def
      englishTextToSpeech_tail first_of_def bindW_def unlinkSync_def fun_eq_iff)

lemma api_translate_audio_resolved:
  assumes "req_file req = Some buffer"
    and "fst (translate_audio_try svc tempId dspId buffer w) = Resolved wav"
  shows "fst (api_translate_audio svc tempId dspId req w)
      = Some (send wav (setHeader ''Content-Length'' (HNumber (length wav))
                (setHeader ''Content-Type'' (HString ''audio/wav'') res)))"
    and "snd (api_translate_audio svc tempId dspId req w)
      = snd (translate_audio_try svc tempId dspId buffer w)"
  using assms
  by (cases "translate_audio_try svc tempId dspId buffer w";
      simp add: api_translate_audio_def Let_def)+

lemma bindO_assoc: "bindO (bindO m f) g = bindO m (\<lambda>x. bindO (f x) g)"
  by (rule ext) (simp add: bindO_def split: prod.splits outcome.splits)

lemma bindO_return: "bindO (Pair (Resolved x)) f = f x"
  by (rule ext) (simp add: bindO_def)

lemma try_split:
  "translate_audio_try svc tempId dspId buffer =
     bindO (try_without_cleanup svc tempId dspId buffer) (\<lambda>finalAudioBuffer.
       bindO (settle (unlinkSync (''temp'', ''raw_'' @ tempId @ ''.wav''))) (\<lambda>_.
       bindO (settle (unlinkSync (''temp'', ''cleaned_'' @ tempId @ ''.wav''))) (\<lambda>_.
       Pair (Resolved finalAudioBuffer))))"
  unfolding translate_audio_try_def try_without_cleanup_def Let_def
  by (simp only: bindO_assoc bindO_return)

lemma files_call [simp]: "files (snd (call c answer w)) = files w"
  by (cases answer) simp_all

lemma stage_files:
  "files (snd (settle (speechToAssameseText svc p) w)) = files w"
  "files (snd (settle (translateAssameseToEnglish svc assamese) w)) = files w"
  "files (snd (settle (englishTextToSpeech svc english) w)) = files w"
  by (auto simp add: settle_def speechToAssameseText_def translateAssameseToEnglish_def
      englishTextToSpeech_tail bindW_def call_def
      split: prod.splits sum.splits option.splits if_splits)

lemma try_without_cleanup_files:
  assumes "tempId \<noteq> dspId"
    and "try_without_cleanup svc tempId dspId buffer w = (Resolved x, w')"
  shows "existsSync (''temp'', ''raw_'' @ tempId @ ''.wav'') w'
    \<and> existsSync (''temp'', ''cleaned_'' @ tempId @ ''.wav'') w'"
proof -
  let ?raw = "(''temp'', ''raw_'' @ tempId @ ''.wav'')"
  let ?cleaned = "(''temp'', ''cleaned_'' @ tempId @ ''.wav'')"
  from assms(2) obtain u1 w1 where s1: "settle (writeFileSync ?raw buffer) w = (Resolved u1, w1)"
    by (cases "settle (writeFileSync ?raw buffer) w"; cases "fst (settle (writeFileSync ?raw buffer) w)")
      (auto simp add: try_without_cleanup_def Let_def bindO_def)
  with assms(2) obtain c w2 where
    s2: "preprocessAudioDSP (ffmpeg_engine svc) dspId buffer w1 = (Resolved c, w2)"
    by (cases "preprocessAudioDSP (ffmpeg_engine svc) dspId buffer w1";
        cases "fst (preprocessAudioDSP (ffmpeg_engine svc) dspId buffer w1)")
      (auto simp add: try_without_cleanup_def Let_def bindO_def)
  with assms(2) s1 obtain u3 w3 where
    s3: "settle (writeFileSync ?cleaned c) w2 = (Resolved u3, w3)"
    by (cases "settle (writeFileSync ?cleaned c) w2";
        cases "fst (settle (writeFileSync ?cleaned c) w2)")
      (auto simp add: try_without_cleanup_def Let_def bindO_def)
  with assms(2) s1 s2 obtain a w4 where
    s4: "settle (speechToAssameseText svc ?cleaned) w3 = (Resolved a, w4)"
    by (cases "settle (speechToAssameseText svc ?cleaned) w3";
        cases "fst (settle (speechToAssameseText svc ?cleaned) w3)")
      (auto simp add: try_without_cleanup_def Let_def bindO_def)
  with assms(2) s1 s2 s3 obtain e w5 where
    s5: "settle (translateAssameseToEnglish svc a) w4 = (Resolved e, w5)"
    by (cases "settle (translateAssameseToEnglish svc a) w4";
        cases "fst (settle (translateAssameseToEnglish svc a) w4)")
      (auto simp add: try_without_cleanup_def Let_def bindO_def)
  with assms(2) s1 s2 s3 s4 have
    s6: "settle (englishTextToSpeech svc e) w5 = (Resolved x, w')"
    by (cases "settle (englishTextToSpeech svc e) w5";
        cases "fst (settle (englishTextToSpeech svc e) w5)")
      (auto simp add: try_without_cleanup_def Let_def bindO_def)
  have f1: "files w1 ?raw = Some buffer"
    using s1 by (auto simp add: settle_def writeFileSync_def split: if_splits)
  have f2: "files w2 ?raw = Some buffer"
    using s2 f1 assms(1)
    by (auto simp add: preprocessAudioDSP_cases split: engine_result.splits option.splits)
  have f3: "files w3 ?raw = Some buffer" "files w3 ?cleaned = Some c"
    using s3 f2 by (auto simp add: settle_def writeFileSync_def split: if_splits)
  have "files w4 = files w3"
    using stage_files(1) [of svc ?cleaned w3] s4 by simp
  moreover have "files w5 = files w4"
    using stage_files(2) [of svc a w4] s5 by simp
  moreover have "files w' = files w5"
    using stage_files(3) [of svc e w5] s6 by simp
  ultimately show ?thesis using f3 by (simp add: existsSync_def)
qed

lemma try_cleanup_succeeds:
  assumes "tempId \<noteq> dspId"
  shows "fst (translate_audio_try svc tempId dspId buffer w)
    = fst (try_without_cleanup svc tempId dspId buffer w)"
proof (cases "try_without_cleanup svc tempId dspId buffer w")
  case (Pair r w')
  show ?thesis
  proof (cases r)
    case (Resolved x)
    with Pair try_without_cleanup_files [OF assms, of svc buffer w x w']
    show ?thesis
      by (auto simp add: try_split bindO_def settle_def unlinkSync_def existsSync_def)
  next
    case (Rejected e)
    with Pair show ?thesis by (simp add: try_split bindO_def)
  next
    case (Uncaught e)
    with Pair show ?thesis by (simp add: try_split bindO_def)
  qed
qed

text \<open>
  Claim C8 (release never raises). The code releases temporary files in three places,
  and in none of them does a release raise an error. (1) The \<open>end\<close> handler of
  \<open>preprocessAudioDSP\<close> deletes the two files of the stage: whatever the world, the
  engine and the input, the stage never ends with an uncaught exception, and when the
  engine ends, the promise resolves and both files are gone. (2) The \<open>try\<close> block of
  \<open>/api/translate-audio\<close> deletes the handler's two files after the last step: the
  cleanup is reached when every step before it has succeeded (the temporary directory
  exists, the engine ends, the transcription has a text, the translator answers, and
  the synthesis step returns a container, which by \<open>englishTextToSpeech_result\<close> does
  not depend on the world it runs in), and then, the two uuids of the run being
  different, both deletions succeed, the response is the container and both files are
  gone; in every run with different uuids, the outcome of the \<open>try\<close> block is the
  outcome of its steps without the two deletions. (3) The \<open>catch\<close> block deletes each of the two files after
  testing that it exists: this release never raises, leaves no file, and is a no-op
  when the file was never written or has been released already. So the handler answers
  every request: no error raised by a release escapes it.
\<close>

theorem release_never_raises:
  "(\<forall>e. fst (preprocessAudioDSP eng uuid inputBuffer w) \<noteq> Uncaught e)
   \<and> (eng (conditioning_command uuid) inputBuffer = EngineEnd out \<longrightarrow>
        fst (preprocessAudioDSP eng uuid inputBuffer w) = Resolved out
        \<and> \<not> existsSync (''temp'', ''raw_'' @ uuid @ ''.wav'')
             (snd (preprocessAudioDSP eng uuid inputBuffer w))
        \<and> \<not> existsSync (''temp'', ''clean_'' @ uuid @ ''.wav'')
             (snd (preprocessAudioDSP eng uuid inputBuffer w)))
   \<and> (req_file req = Some buffer \<and> ''temp'' \<in> dirs w \<and> tempId \<noteq> dspId
        \<and> ffmpeg_engine svc (conditioning_command dspId) buffer = EngineEnd cleaned
        \<and> whisper_transcribe svc cleaned = Inr (Some assamese) \<and> assamese \<noteq> []
        \<and> translate_text svc assamese = Inr (english # others)
        \<and> fst (englishTextToSpeech svc english w) = Inr wav \<longrightarrow>
        fst (api_translate_audio svc tempId dspId req w)
          = Some (send wav (setHeader ''Content-Length'' (HNumber (length wav))
                    (setHeader ''Content-Type'' (HString ''audio/wav'') res)))
        \<and> \<not> existsSync (''temp'', ''raw_'' @ tempId @ ''.wav'')
             (snd (api_translate_audio svc tempId dspId req w))
        \<and> \<not> existsSync (''temp'', ''cleaned_'' @ tempId @ ''.wav'')
             (snd (api_translate_audio svc tempId dspId req w)))
   \<and> (tempId \<noteq> dspId \<longrightarrow>
        fst (translate_audio_try svc tempId dspId buffer w)
          = fst (try_without_cleanup svc tempId dspId buffer w))
   \<and> (\<exists>w'. unlink_if_exists p w = (Inr (), w') \<and> \<not> existsSync p w'
         \<and> unlink_if_exists p w' = (Inr (), w'))
   \<and> (\<not> existsSync p w \<longrightarrow> unlink_if_exists p w = (Inr (), w))
   \<and> (\<exists>r. fst (api_translate_audio svc tempId dspId req w) = Some r)"
proof (intro conjI impI allI)
  fix e
  show "fst (preprocessAudioDSP eng uuid inputBuffer w) \<noteq> Uncaught e"
    by (rule preprocessAudioDSP_not_uncaught)
next
  assume e: "eng (conditioning_command uuid) inputBuffer = EngineEnd out"
  then show "fst (preprocessAudioDSP eng uuid inputBuffer w) = Resolved out"
    and "\<not> existsSync (''temp'', ''raw_'' @ uuid @ ''.wav'')
             (snd (preprocessAudioDSP eng uuid inputBuffer w))"
    and "\<not> existsSync (''temp'', ''clean_'' @ uuid @ ''.wav'')
             (snd (preprocessAudioDSP eng uuid inputBuffer w))"
    by (simp_all add: preprocessAudioDSP_cases existsSync_def)
next
  assume h: "req_file req = Some buffer \<and> ''temp'' \<in> dirs w \<and> tempId \<noteq> dspId
        \<and> ffmpeg_engine svc (conditioning_command dspId) buffer = EngineEnd cleaned
        \<and> whisper_transcribe svc cleaned = Inr (Some assamese) \<and> assamese \<noteq> []
        \<and> translate_text svc assamese = Inr (english # others)
        \<and> fst (englishTextToSpeech svc english w) = Inr wav"
  then obtain payload where tts: "gemini_tts svc english = Inr payload"
    and wav: "payload_to_wav ''Gemini TTS did not return audio'' payload = Inr wav"
    by (cases "gemini_tts svc english") (auto simp add: englishTextToSpeech_result)
  from h have f: "req_file req = Some buffer" and d: "''temp'' \<in> dirs w"
    and n: "tempId \<noteq> dspId"
    and en: "ffmpeg_engine svc (conditioning_command dspId) buffer = EngineEnd cleaned"
    and wh: "whisper_transcribe svc cleaned = Inr (Some assamese)" and ne: "assamese \<noteq> []"
    and tr: "translate_text svc assamese = Inr (english # others)"
    by simp_all
  note r = try_success(1) [OF d n en wh ne tr tts wav]
    and fs = try_success(2) [OF d n en wh ne tr tts wav]
  show "fst (api_translate_audio svc tempId dspId req w)
          = Some (send wav (setHeader ''Content-Length'' (HNumber (length wav))
                    (setHeader ''Content-Type'' (HString ''audio/wav'') res)))"
    using f r by (rule api_translate_audio_resolved(1))
  show "\<not> existsSync (''temp'', ''raw_'' @ tempId @ ''.wav'')
             (snd (api_translate_audio svc tempId dspId req w))"
    and "\<not> existsSync (''temp'', ''cleaned_'' @ tempId @ ''.wav'')
             (snd (api_translate_audio svc tempId dspId req w))"
    unfolding api_translate_audio_resolved(2) [OF f r] existsSync_def fs
    by simp_all
next
  assume "tempId \<noteq> dspId"
  then show "fst (translate_audio_try svc tempId dspId buffer w)
      = fst (try_without_cleanup svc tempId dspId buffer w)"
    by (rule try_cleanup_succeeds)
next
  show "\<exists>w'. unlink_if_exists p w = (Inr (), w') \<and> \<not> existsSync p w'
         \<and> unlink_if_exists p w' = (Inr (), w')"
    by (simp add: unlink_if_exists_def unlinkSync_def existsSync_def)
next
  assume "\<not> existsSync p w"
  then show "unlink_if_exists p w = (Inr (), w)"
    by (simp add: unlink_if_exists_def)
next
  show "\<exists>r. fst (api_translate_audio svc tempId dspId req w) = Some r"
    by (rule api_translate_audio_answers)
qed

text \<open>
  The end-to-end scenario on \<open>/api/translate-audio\<close>: the response is the container and
  no file is left; and the release of the \<open>catch\<close> block on a file that was never
  written and on one that exists.
\<close>

theorem release_never_raises_witness:
  "fst (preprocessAudioDSP (ffmpeg_engine scenario) ''u1'' [1, 2, 3] w0) = Resolved [1, 2, 3]
   \<and> \<not> existsSync (''temp'', ''raw_u1.wav'')
         (snd (preprocessAudioDSP (ffmpeg_engine scenario) ''u1'' [1, 2, 3] w0))
   \<and> fst (api_translate_audio scenario ''t1'' ''u1''
           \<lparr>req_file = Some [1, 2, 3], req_text = None\<rparr> w0)
       = Some (send (wav_header 2 24000 @ [100, 0, 156, 255])
                (setHeader ''Content-Length'' (HNumber 48)
                  (setHeader ''Content-Type'' (HString ''audio/wav'') res)))
   \<and> \<not> existsSync (''temp'', ''raw_t1.wav'')
         (snd (api_translate_audio scenario ''t1'' ''u1''
                \<lparr>req_file = Some [1, 2, 3], req_text = None\<rparr> w0))
   \<and> \<not> existsSync (''temp'', ''cleaned_t1.wav'')
         (snd (api_translate_audio scenario ''t1'' ''u1''
                \<lparr>req_file = Some [1, 2, 3], req_text = None\<rparr> w0))
   \<and> \<not> existsSync (''temp'', ''raw_t1.wav'') w0
   \<and> unlink_if_exists (''temp'', ''raw_t1.wav'') w0 = (Inr (), w0)
   \<and> fst (unlink_if_exists (''temp'', ''raw_t1.wav'')
         (w0\<lparr>files := [(''temp'', ''raw_t1.wav'') \<mapsto> [1, 2, 3]]\<rparr>)) = Inr ()
   \<and> \<not> existsSync (''temp'', ''raw_t1.wav'')
         (snd (unlink_if_exists (''temp'', ''raw_t1.wav'')
           (w0\<lparr>files := [(''temp'', ''raw_t1.wav'') \<mapsto> [1, 2, 3]]\<rparr>)))"
proof -
  have en: "ffmpeg_engine scenario (conditioning_command ''u1'') [1, 2, 3] = EngineEnd [1, 2, 3]"
    and wh: "whisper_transcribe scenario [1, 2, 3] = Inr (Some ''hello'')"
    and tr: "translate_text scenario ''hello'' = Inr [''hello'']"
    by (simp_all add: scenario_def)
  have tts: "fst (englishTextToSpeech scenario ''hello'' w0)
      = Inr (wav_header 2 24000 @ [100, 0, 156, 255])"
    by (simp add: englishTextToSpeech_tail scenario_def scenario_payload)
  have d: "''temp'' \<in> dirs w0" and n: "''t1'' \<noteq> ''u1''" and ne: "''hello'' \<noteq> []"
    and miss: "\<not> existsSync (''temp'', ''raw_t1.wav'') w0"
    by (simp_all add: w0_def existsSync_def)
  note run = release_never_raises
    [where eng = "ffmpeg_engine scenario" and uuid = "''u1''" and inputBuffer = "[1, 2, 3]"
       and out = "[1, 2, 3]" and w = w0 and svc = scenario and tempId = "''t1''"
       and dspId = "''u1''" and req = "\<lparr>req_file = Some [1, 2, 3], req_text = None\<rparr>"
       and buffer = "[1, 2, 3]" and cleaned = "[1, 2, 3]" and assamese = "''hello''"
       and english = "''hello''" and others = "[]"
       and wav = "wav_header 2 24000 @ [100, 0, 156, 255]"
       and p = "(''temp'', ''raw_t1.wav'')"]
  note again = release_never_raises
    [where p = "(''temp'', ''raw_t1.wav'')"
       and w = "w0\<lparr>files := [(''temp'', ''raw_t1.wav'') \<mapsto> [1, 2, 3]]\<rparr>",
     THEN conjunct2, THEN conjunct2, THEN conjunct2, THEN conjunct2, THEN conjunct1]
  from run en wh tr tts d n ne miss have
    "fst (preprocessAudioDSP (ffmpeg_engine scenario) ''u1'' [1, 2, 3] w0) = Resolved [1, 2, 3]"
    "\<not> existsSync (''temp'', ''raw_u1.wav'')
         (snd (preprocessAudioDSP (ffmpeg_engine scenario) ''u1'' [1, 2, 3] w0))"
    "fst (api_translate_audio scenario ''t1'' ''u1''
           \<lparr>req_file = Some [1, 2, 3], req_text = None\<rparr> w0)
       = Some (send (wav_header 2 24000 @ [100, 0, 156, 255])
                (setHeader ''Content-Length'' (HNumber 48)
                  (setHeader ''Content-Type'' (HString ''audio/wav'') res)))"
    "\<not> existsSync (''temp'', ''raw_t1.wav'')
         (snd (api_translate_audio scenario ''t1'' ''u1''
                \<lparr>req_file = Some [1, 2, 3], req_text = None\<rparr> w0))"
    "\<not> existsSync (''temp'', ''cleaned_t1.wav'')
         (snd (api_translate_audio scenario ''t1'' ''u1''
                \<lparr>req_file = Some [1, 2, 3], req_text = None\<rparr> w0))"
    "unlink_if_exists (''temp'', ''raw_t1.wav'') w0 = (Inr (), w0)"
    by simp_all
  moreover from again obtain w' where
    "unlink_if_exists (''temp'', ''raw_t1.wav'')
         (w0\<lparr>files := [(''temp'', ''raw_t1.wav'') \<mapsto> [1, 2, 3]]\<rparr>) = (Inr (), w')"
    and "\<not> existsSync (''temp'', ''raw_t1.wav'') w'"
    by blast
  then have
    "fst (unlink_if_exists (''temp'', ''raw_t1.wav'')
         (w0\<lparr>files := [(''temp'', ''raw_t1.wav'') \<mapsto> [1, 2, 3]]\<rparr>)) = Inr ()"
    "\<not> existsSync (''temp'', ''raw_t1.wav'')
         (snd (unlink_if_exists (''temp'', ''raw_t1.wav'')
           (w0\<lparr>files := [(''temp'', ''raw_t1.wav'') \<mapsto> [1, 2, 3]]\<rparr>)))"
    by simp_all
  ultimately show ?thesis using miss by simp
qed

lemma try_engine_error:
  assumes "''temp'' \<in> dirs w" and "tempId \<noteq> dspId"
    and "ffmpeg_engine svc (conditioning_command dspId) buffer = EngineError err partial"
  shows "fst (translate_audio_try svc tempId dspId buffer w) = Rejected err"
    and "files (snd (translate_audio_try svc tempId dspId buffer w))
           (''temp'', ''raw_'' @ dspId @ ''.wav'') = Some buffer"
  using assms
  by (cases partial;
      simp add: translate_audio_try_def Let_def bindO_def settle_def writeFileSync_def
        preprocessAudioDSP_cases)+

lemma files_unlink_if_exists:
  "files (snd (unlink_if_exists p w)) = (files w)(p := None)"
  by (auto simp add: unlink_if_exists_def unlinkSync_def existsSync_def)

lemma api_translate_audio_rejected_files:
  assumes "req_file req = Some buffer"
    and "fst (translate_audio_try svc tempId dspId buffer w) = Rejected e"
  shows "files (snd (api_translate_audio svc tempId dspId req w))
    = (files (snd (translate_audio_try svc tempId dspId buffer w)))
        ((''temp'', ''raw_'' @ tempId @ ''.wav'') := None,
         (''temp'', ''cleaned_'' @ tempId @ ''.wav'') := None)"
proof -
  obtain w1 where run: "translate_audio_try svc tempId dspId buffer w = (Rejected e, w1)"
    using assms(2) by (cases "translate_audio_try svc tempId dspId buffer w") simp
  obtain w2 where u1: "unlink_if_exists (''temp'', ''raw_'' @ tempId @ ''.wav'') w1 = (Inr (), w2)"
    using unlink_if_exists_ex [of "(''temp'', ''raw_'' @ tempId @ ''.wav'')" w1] by blast
  obtain w3 where u2: "unlink_if_exists (''temp'', ''cleaned_'' @ tempId @ ''.wav'') w2 = (Inr (), w3)"
    using unlink_if_exists_ex [of "(''temp'', ''cleaned_'' @ tempId @ ''.wav'')" w2] by blast
  have f2: "files w2 = (files w1)((''temp'', ''raw_'' @ tempId @ ''.wav'') := None)"
    using files_unlink_if_exists [of "(''temp'', ''raw_'' @ tempId @ ''.wav'')" w1] u1 by simp
  have f3: "files w3 = (files w2)((''temp'', ''cleaned_'' @ tempId @ ''.wav'') := None)"
    using files_unlink_if_exists [of "(''temp'', ''cleaned_'' @ tempId @ ''.wav'')" w2] u2 by simp
  have "snd (api_translate_audio svc tempId dspId req w) = w3"
    using assms(1) run u1 u2 by (simp add: api_translate_audio_def Let_def bindW_def)
  with f2 f3 run show ?thesis by simp
qed

text \<open>
  Claim C1 (no temporary file left behind) does not hold of the code. When the engine
  emits \<open>error\<close>, the handler only rejects: the raw input file the stage wrote for its
  uuid is still there when \<open>preprocessAudioDSP\<close> returns (the \<open>end\<close> handler deletes
  both files, see \<open>preprocessAudioDSP_cases\<close>). In a run of \<open>/api/translate-audio\<close> that
  fails in this way, the \<open>catch\<close> block answers 500 and deletes the handler's own two
  files, and the file of the conditioning stage is left behind.
\<close>

theorem conditioning_leaks_on_engine_error:
  "eng (conditioning_command uuid) inputBuffer = EngineError err partial \<longrightarrow>
     fst (preprocessAudioDSP eng uuid inputBuffer w) = Rejected err
     \<and> existsSync (''temp'', ''raw_'' @ uuid @ ''.wav'')
          (snd (preprocessAudioDSP eng uuid inputBuffer w))
     \<and> files (snd (preprocessAudioDSP eng uuid inputBuffer w))
          (''temp'', ''raw_'' @ uuid @ ''.wav'') = Some inputBuffer
     \<and> (req_file req = Some inputBuffer \<and> ''temp'' \<in> dirs w \<and> tempId \<noteq> uuid
          \<and> eng = ffmpeg_engine svc \<longrightarrow>
         fst (api_translate_audio svc tempId uuid req w)
           = Some (json [(''success'', JBool False), (''error'', JString (message err))]
                    (status 500 res))
         \<and> \<not> existsSync (''temp'', ''raw_'' @ tempId @ ''.wav'')
              (snd (api_translate_audio svc tempId uuid req w))
         \<and> \<not> existsSync (''temp'', ''cleaned_'' @ tempId @ ''.wav'')
              (snd (api_translate_audio svc tempId uuid req w))
         \<and> existsSync (''temp'', ''raw_'' @ uuid @ ''.wav'')
              (snd (api_translate_audio svc tempId uuid req w)))"
proof (intro impI conjI)
  assume e: "eng (conditioning_command uuid) inputBuffer = EngineError err partial"
  then show "fst (preprocessAudioDSP eng uuid inputBuffer w) = Rejected err"
    and "existsSync (''temp'', ''raw_'' @ uuid @ ''.wav'')
          (snd (preprocessAudioDSP eng uuid inputBuffer w))"
    and "files (snd (preprocessAudioDSP eng uuid inputBuffer w))
          (''temp'', ''raw_'' @ uuid @ ''.wav'') = Some inputBuffer"
    by (cases partial; simp add: preprocessAudioDSP_cases existsSync_def)+
  assume h: "req_file req = Some inputBuffer \<and> ''temp'' \<in> dirs w \<and> tempId \<noteq> uuid
          \<and> eng = ffmpeg_engine svc"
  then have t: "''temp'' \<in> dirs w" and n: "tempId \<noteq> uuid" by simp_all
  from e h have e': "ffmpeg_engine svc (conditioning_command uuid) inputBuffer
      = EngineError err partial" by simp
  note r = try_engine_error(1) [OF t n e']
    and f = try_engine_error(2) [OF t n e']
  from h r show "fst (api_translate_audio svc tempId uuid req w)
           = Some (json [(''success'', JBool False), (''error'', JString (message err))]
                    (status 500 res))"
    by (simp add: api_translate_audio_rejected)
  from h r f show "\<not> existsSync (''temp'', ''raw_'' @ tempId @ ''.wav'')
              (snd (api_translate_audio svc tempId uuid req w))"
    and "\<not> existsSync (''temp'', ''cleaned_'' @ tempId @ ''.wav'')
              (snd (api_translate_audio svc tempId uuid req w))"
    and "existsSync (''temp'', ''raw_'' @ uuid @ ''.wav'')
              (snd (api_translate_audio svc tempId uuid req w))"
    by (auto simp add: api_translate_audio_rejected_files existsSync_def)
qed

text \<open>
  The failing run: an engine that exits with an error on the bytes 1, 2, 3.
\<close>

theorem conditioning_leaks_on_engine_error_witness:
  "ffmpeg_engine (scenario\<lparr>ffmpeg_engine := \<lambda>cmd content.
        EngineError (Thrown PlainError ''ffmpeg exited with code 1'') None\<rparr>)
      (conditioning_command ''u1'') [1, 2, 3]
     = EngineError (Thrown PlainError ''ffmpeg exited with code 1'') None
   \<and> fst (preprocessAudioDSP
        (ffmpeg_engine (scenario\<lparr>ffmpeg_engine := \<lambda>cmd content.
           EngineError (Thrown PlainError ''ffmpeg exited with code 1'') None\<rparr>))
        ''u1'' [1, 2, 3] w0)
     = Rejected (Thrown PlainError ''ffmpeg exited with code 1'')
   \<and> files (snd (preprocessAudioDSP
        (ffmpeg_engine (scenario\<lparr>ffmpeg_engine := \<lambda>cmd content.
           EngineError (Thrown PlainError ''ffmpeg exited with code 1'') None\<rparr>))
        ''u1'' [1, 2, 3] w0)) (''temp'', ''raw_u1.wav'') = Some [1, 2, 3]
   \<and> fst (api_translate_audio
        (scenario\<lparr>ffmpeg_engine := \<lambda>cmd content.
           EngineError (Thrown PlainError ''ffmpeg exited with code 1'') None\<rparr>)
        ''t1'' ''u1'' \<lparr>req_file = Some [1, 2, 3], req_text = None\<rparr> w0)
     = Some (json [(''success'', JBool False),
                   (''error'', JString ''ffmpeg exited with code 1'')] (status 500 res))
   \<and> \<not> existsSync (''temp'', ''raw_t1.wav'')
        (snd (api_translate_audio
          (scenario\<lparr>ffmpeg_engine := \<lambda>cmd content.
             EngineError (Thrown PlainError ''ffmpeg exited with code 1'') None\<rparr>)
          ''t1'' ''u1'' \<lparr>req_file = Some [1, 2, 3], req_text = None\<rparr> w0))
   \<and> existsSync (''temp'', ''raw_u1.wav'')
        (snd (api_translate_audio
          (scenario\<lparr>ffmpeg_engine := \<lambda>cmd content.
             EngineError (Thrown PlainError ''ffmpeg exited with code 1'') None\<rparr>)
          ''t1'' ''u1'' \<lparr>req_file = Some [1, 2, 3], req_text = None\<rparr> w0))"
  using conditioning_leaks_on_engine_error
    [where eng = "ffmpeg_engine (scenario\<lparr>ffmpeg_engine := \<lambda>cmd content.
           EngineError (Thrown PlainError ''ffmpeg exited with code 1'') None\<rparr>)"
       and svc = "scenario\<lparr>ffmpeg_engine := \<lambda>cmd content.
           EngineError (Thrown PlainError ''ffmpeg exited with code 1'') None\<rparr>"
       and uuid = "''u1''" and tempId = "''t1''" and inputBuffer = "[1, 2, 3]"
       and err = "Thrown PlainError ''ffmpeg exited with code 1''" and partial = None
       and req = "\<lparr>req_file = Some [1, 2, 3], req_text = None\<rparr>" and w = w0]
  by (simp add: scenario_def w0_def)

end
